theory Spec2Isabelle
  imports Complex_Main
begin

section \<open>JavaScript numbers\<close>

text \<open>
  The simulation computes with JavaScript numbers. They are modelled as the exact real
  numbers extended by the two infinities and NaN: \<open>Fin r\<close> is a finite double taken at its
  exact value, so rounding and overflow are idealised away, while everything the language
  defines for the special values is kept: a division by zero does not throw, \<open>0 / 0\<close>
  is NaN, every comparison with NaN is false, and NaN propagates through arithmetic.
  The sign of a zero is not tracked; a zero divisor is taken as \<open>+0\<close>, which is what
  \<open>Math.sqrt\<close> and a sum of positive masses give. Finite arithmetic is exact here and
  rounded in the code; where rounding could decide a property of the walls or of a
  collision, the property is stated through the operations and tests of the code
  themselves, not through real algebra on their results.
\<close>

datatype jsnum = Fin real | PInf | NInf | NaN

fun is_fin :: "jsnum \<Rightarrow> bool" where
  "is_fin (Fin r) = True"
| "is_fin PInf = False"
| "is_fin NInf = False"
| "is_fin NaN = False"

fun sign_inf :: "real \<Rightarrow> jsnum" where
  "sign_inf s = (if s = 0 then NaN else if 0 < s then PInf else NInf)"

instantiation jsnum :: uminus
begin

fun uminus_jsnum :: "jsnum \<Rightarrow> jsnum" where
  "uminus_jsnum (Fin a) = Fin (- a)"
| "uminus_jsnum PInf = NInf"
| "uminus_jsnum NInf = PInf"
| "uminus_jsnum NaN = NaN"

instance ..

end

instantiation jsnum :: plus
begin

fun plus_jsnum :: "jsnum \<Rightarrow> jsnum \<Rightarrow> jsnum" where
  "plus_jsnum (Fin a) (Fin b) = Fin (a + b)"
| "plus_jsnum NaN _ = NaN"
| "plus_jsnum _ NaN = NaN"
| "plus_jsnum PInf NInf = NaN"
| "plus_jsnum NInf PInf = NaN"
| "plus_jsnum PInf _ = PInf"
| "plus_jsnum _ PInf = PInf"
| "plus_jsnum NInf _ = NInf"
| "plus_jsnum _ NInf = NInf"

instance ..

end

instantiation jsnum :: minus
begin

definition minus_jsnum :: "jsnum \<Rightarrow> jsnum \<Rightarrow> jsnum" where
  "minus_jsnum a b = a + (- b)"

instance ..

end

instantiation jsnum :: times
begin

fun times_jsnum :: "jsnum \<Rightarrow> jsnum \<Rightarrow> jsnum" where
  "times_jsnum (Fin a) (Fin b) = Fin (a * b)"
| "times_jsnum NaN _ = NaN"
| "times_jsnum _ NaN = NaN"
| "times_jsnum PInf (Fin b) = sign_inf b"
| "times_jsnum NInf (Fin b) = sign_inf (- b)"
| "times_jsnum (Fin a) PInf = sign_inf a"
| "times_jsnum (Fin a) NInf = sign_inf (- a)"
| "times_jsnum PInf PInf = PInf"
| "times_jsnum NInf NInf = PInf"
| "times_jsnum PInf NInf = NInf"
| "times_jsnum NInf PInf = NInf"

instance ..

end

instantiation jsnum :: inverse
begin

fun divide_jsnum :: "jsnum \<Rightarrow> jsnum \<Rightarrow> jsnum" where
  "divide_jsnum (Fin a) (Fin b) = (if b = 0 then sign_inf a else Fin (a / b))"
| "divide_jsnum NaN _ = NaN"
| "divide_jsnum _ NaN = NaN"
| "divide_jsnum (Fin a) PInf = Fin 0"
| "divide_jsnum (Fin a) NInf = Fin 0"
| "divide_jsnum PInf (Fin b) = (if 0 \<le> b then PInf else NInf)"
| "divide_jsnum NInf (Fin b) = (if 0 \<le> b then NInf else PInf)"
| "divide_jsnum PInf PInf = NaN"
| "divide_jsnum PInf NInf = NaN"
| "divide_jsnum NInf PInf = NaN"
| "divide_jsnum NInf NInf = NaN"

definition inverse_jsnum :: "jsnum \<Rightarrow> jsnum" where
  "inverse_jsnum a = divide (Fin 1) a"

instance ..

end

instantiation jsnum :: ord
begin

fun less_jsnum :: "jsnum \<Rightarrow> jsnum \<Rightarrow> bool" where
  "less_jsnum (Fin a) (Fin b) = (a < b)"
| "less_jsnum NaN _ = False"
| "less_jsnum _ NaN = False"
| "less_jsnum _ NInf = False"
| "less_jsnum PInf _ = False"
| "less_jsnum NInf _ = True"
| "less_jsnum _ PInf = True"

fun less_eq_jsnum :: "jsnum \<Rightarrow> jsnum \<Rightarrow> bool" where
  "less_eq_jsnum (Fin a) (Fin b) = (a \<le> b)"
| "less_eq_jsnum NaN _ = False"
| "less_eq_jsnum _ NaN = False"
| "less_eq_jsnum NInf _ = True"
| "less_eq_jsnum _ PInf = True"
| "less_eq_jsnum _ NInf = False"
| "less_eq_jsnum PInf _ = False"

instance ..

end

text \<open>The strict equality \<open>===\<close> on numbers: NaN is equal to nothing, not even to itself.\<close>

fun strict_equal :: "jsnum \<Rightarrow> jsnum \<Rightarrow> bool" where
  "strict_equal NaN _ = False"
| "strict_equal _ NaN = False"
| "strict_equal a b = (a = b)"

text \<open>\<open>Math.sqrt\<close>, \<open>Math.min\<close> and \<open>Math.max\<close>.\<close>

fun Math_sqrt :: "jsnum \<Rightarrow> jsnum" where
  "Math_sqrt (Fin a) = (if a < 0 then NaN else Fin (sqrt a))"
| "Math_sqrt PInf = PInf"
| "Math_sqrt NInf = NaN"
| "Math_sqrt NaN = NaN"

fun Math_min :: "jsnum \<Rightarrow> jsnum \<Rightarrow> jsnum" where
  "Math_min NaN _ = NaN"
| "Math_min _ NaN = NaN"
| "Math_min a b = (if b < a then b else a)"

fun Math_max :: "jsnum \<Rightarrow> jsnum \<Rightarrow> jsnum" where
  "Math_max NaN _ = NaN"
| "Math_max _ NaN = NaN"
| "Math_max a b = (if a < b then b else a)"

section \<open>Bodies and the simulation state\<close>

text \<open>
  The object literal built by \<open>addObjectAt\<close>. The colour is the CSS string
  \<open>hsl(h, 70%, 60%)\<close>; the record keeps its hue \<open>h\<close>.
\<close>

record body =
  x :: jsnum
  y :: jsnum
  vx :: jsnum
  vy :: jsnum
  radius :: jsnum
  mass :: jsnum
  color :: jsnum
  restitution :: jsnum
  friction :: jsnum

section \<open>Collision of two bodies\<close>

text \<open>The local constants of \<open>checkCollision\<close>, in the order the source computes them.\<close>

definition distance :: "body \<Rightarrow> body \<Rightarrow> jsnum" where
  "distance obj1 obj2 =
     (let dx = x obj2 - x obj1; dy = y obj2 - y obj1
      in Math_sqrt (dx * dx + dy * dy))"

definition minDistance :: "body \<Rightarrow> body \<Rightarrow> jsnum" where
  "minDistance obj1 obj2 = radius obj1 + radius obj2"

definition normalX :: "body \<Rightarrow> body \<Rightarrow> jsnum" where
  "normalX obj1 obj2 = (x obj2 - x obj1) / distance obj1 obj2"

definition normalY :: "body \<Rightarrow> body \<Rightarrow> jsnum" where
  "normalY obj1 obj2 = (y obj2 - y obj1) / distance obj1 obj2"

definition relativeSpeed :: "body \<Rightarrow> body \<Rightarrow> jsnum \<Rightarrow> jsnum \<Rightarrow> jsnum" where
  "relativeSpeed obj1 obj2 nX nY =
     (let relativeVx = vx obj2 - vx obj1; relativeVy = vy obj2 - vy obj1
      in relativeVx * nX + relativeVy * nY)"

text \<open>
  \<open>checkCollision\<close> mutates its two arguments; the model returns both. The two objects
  are always distinct elements of the object list, so there is no aliasing.
\<close>

definition checkCollision :: "body \<Rightarrow> body \<Rightarrow> body \<times> body" where
  "checkCollision obj1 obj2 =
     (if distance obj1 obj2 < minDistance obj1 obj2 then
        let overlap = minDistance obj1 obj2 - distance obj1 obj2;
            nX = normalX obj1 obj2;
            nY = normalY obj1 obj2;
            totalMass = mass obj1 + mass obj2;
            move1 = overlap * (mass obj2 / totalMass);
            move2 = overlap * (mass obj1 / totalMass);
            obj1 = obj1\<lparr>x := x obj1 - nX * move1\<rparr>;
            obj1 = obj1\<lparr>y := y obj1 - nY * move1\<rparr>;
            obj2 = obj2\<lparr>x := x obj2 + nX * move2\<rparr>;
            obj2 = obj2\<lparr>y := y obj2 + nY * move2\<rparr>;
            rel = relativeSpeed obj1 obj2 nX nY
        in if Fin 0 < rel then (obj1, obj2)
           else
             let rest = Math_min (restitution obj1) (restitution obj2);
                 impulse = (Fin 1 + rest) * rel / totalMass;
                 obj1' = obj1\<lparr>vx := vx obj1 + impulse * mass obj2 * nX\<rparr>;
                 obj1' = obj1'\<lparr>vy := vy obj1' + impulse * mass obj2 * nY\<rparr>;
                 obj2' = obj2\<lparr>vx := vx obj2 - impulse * mass obj1 * nX\<rparr>;
                 obj2' = obj2'\<lparr>vy := vy obj2' - impulse * mass obj1 * nY\<rparr>
             in (obj1', obj2')
      else (obj1, obj2))"

section \<open>The simulation\<close>

text \<open>
  The fields of \<open>PhysicsSimulation\<close> that the physics reads or writes. The canvas is
  present whenever \<open>update\<close> runs (\<open>render\<close> returns early without a drawing context),
  so its size is part of the state; the DOM handles, the animation id and the vibration
  feedback are outside the model.
\<close>

record sim =
  objects :: "body list"
  gravity :: "jsnum \<times> jsnum"
  gravityEnabled :: bool
  objectCount :: nat
  isRunning :: bool
  lastTime :: jsnum
  canvas_width :: jsnum
  canvas_height :: jsnum

text \<open>The state after the constructor and \<open>createCanvas\<close>.\<close>

definition PhysicsSimulation :: sim where
  "PhysicsSimulation =
     \<lparr>objects = [], gravity = (Fin 0, Fin 0.5), gravityEnabled = True, objectCount = 0,
      isRunning = False, lastTime = Fin 0, canvas_width = Fin 600, canvas_height = Fin 400\<rparr>"

definition updateObjectCount :: "sim \<Rightarrow> sim" where
  "updateObjectCount s = s\<lparr>objectCount := length (objects s)\<rparr>"

text \<open>
  What a call returns to its caller. \<open>addObjectAt\<close> ends with a bare \<open>return\<close> or by
  falling off its end, so it yields \<open>undefined\<close> on every path; \<open>Error\<close> stands for
  an error value that a function could hand back instead.
\<close>

datatype js_value = Undefined | Error string

text \<open>
  \<open>addObjectAt\<close>. The argument \<open>random k\<close> is the result of the \<open>k\<close>-th call of
  \<open>Math.random()\<close> made during this call: radius, hue, \<open>vx\<close>, \<open>vy\<close>, in that order.
\<close>

definition addObjectAt :: "(nat \<Rightarrow> jsnum) \<Rightarrow> jsnum \<Rightarrow> jsnum \<Rightarrow> sim \<Rightarrow> js_value \<times> sim" where
  "addObjectAt random px py s =
     (if 50 \<le> length (objects s) then (Undefined, s)
      else
        let r = random 0 * Fin 15 + Fin 10;
            m = r / Fin 5;
            c = random 1 * Fin 360;
            object = \<lparr>x = px, y = py,
                      vx = (random 2 - Fin 0.5) * Fin 10,
                      vy = (random 3 - Fin 0.5) * Fin 10,
                      radius = r, mass = m, color = c,
                      restitution = Fin 0.8, friction = Fin 0.99\<rparr>;
            s = s\<lparr>objects := objects s @ [object]\<rparr>;
            s = updateObjectCount s
        in (Undefined, s))"

definition toggleGravity :: "sim \<Rightarrow> sim" where
  "toggleGravity s = s\<lparr>gravityEnabled := \<not> gravityEnabled s\<rparr>"

definition clearObjects :: "sim \<Rightarrow> sim" where
  "clearObjects s = updateObjectCount (s\<lparr>objects := []\<rparr>)"

subsection \<open>One frame\<close>

text \<open>The constant \<open>dt\<close> of \<open>update\<close>.\<close>

definition dt_factor :: "jsnum \<Rightarrow> jsnum" where
  "dt_factor deltaTime = Math_min (deltaTime / Fin 16.67) (Fin 2)"

text \<open>The first half of the loop body of \<open>update\<close>: gravity, friction, position.\<close>

definition integrate :: "bool \<Rightarrow> jsnum \<times> jsnum \<Rightarrow> jsnum \<Rightarrow> body \<Rightarrow> body" where
  "integrate gEnabled g dt obj =
     (let obj = (if gEnabled then
                   let obj = obj\<lparr>vx := vx obj + fst g * dt\<rparr>
                   in obj\<lparr>vy := vy obj + snd g * dt\<rparr>
                 else obj);
          obj = obj\<lparr>vx := vx obj * friction obj\<rparr>;
          obj = obj\<lparr>vy := vy obj * friction obj\<rparr>;
          obj = obj\<lparr>x := x obj + vx obj * dt\<rparr>;
          obj = obj\<lparr>y := y obj + vy obj * dt\<rparr>
      in obj)"

text \<open>The second half of the loop body: the four boundary tests, one after the other.\<close>

definition boundary :: "jsnum \<Rightarrow> jsnum \<Rightarrow> body \<Rightarrow> body" where
  "boundary width height obj =
     (let obj = (if x obj - radius obj < Fin 0
                 then obj\<lparr>x := radius obj, vx := - vx obj * restitution obj\<rparr> else obj);
          obj = (if width < x obj + radius obj
                 then obj\<lparr>x := width - radius obj, vx := - vx obj * restitution obj\<rparr> else obj);
          obj = (if y obj - radius obj < Fin 0
                 then obj\<lparr>y := radius obj, vy := - vy obj * restitution obj\<rparr> else obj);
          obj = (if height < y obj + radius obj
                 then obj\<lparr>y := height - radius obj, vy := - vy obj * restitution obj\<rparr> else obj)
      in obj)"

text \<open>The first loop of \<open>update\<close>, over the index \<open>i\<close>, changing \<open>objects[i]\<close> in place.\<close>

function move_loop :: "sim \<Rightarrow> jsnum \<Rightarrow> nat \<Rightarrow> body list \<Rightarrow> body list" where
  "move_loop s dt i objs =
     (if i < length objs then
        let obj = objs ! i;
            obj = integrate (gravityEnabled s) (gravity s) dt obj;
            obj = boundary (canvas_width s) (canvas_height s) obj
        in move_loop s dt (i + 1) (objs[i := obj])
      else objs)"
  by pat_completeness auto
termination
  by (relation "measure (\<lambda>(s, dt, i, objs). length objs - i)") auto

declare move_loop.simps [simp del]

text \<open>The inner and the outer loop over the pairs \<open>i < j\<close>.\<close>

function collide_inner :: "nat \<Rightarrow> nat \<Rightarrow> body list \<Rightarrow> body list" where
  "collide_inner i j objs =
     (if j < length objs then
        let (obj1, obj2) = checkCollision (objs ! i) (objs ! j)
        in collide_inner i (j + 1) (objs[i := obj1, j := obj2])
      else objs)"
  by pat_completeness auto
termination
  by (relation "measure (\<lambda>(i, j, objs). length objs - j)") auto

declare collide_inner.simps [simp del]

function collide_outer :: "nat \<Rightarrow> body list \<Rightarrow> body list" where
  "collide_outer i objs =
     (if i < length objs then collide_outer (i + 1) (collide_inner i (i + 1) objs)
      else objs)"
  by pat_completeness auto
termination
proof (relation "measure (\<lambda>(i, objs). length objs - i)")
  show "wf (measure (\<lambda>(i, objs). length objs - i))"
    by simp
next
  fix i :: nat and objs :: "body list"
  assume less: "i < length objs"
  have len: "length (collide_inner a j os) = length os" for a j os
  proof (induction a j os rule: collide_inner.induct)
    case (1 a j os)
    then show ?case
      by (subst collide_inner.simps) (simp split: prod.splits)
  qed
  from less show "((i + 1, collide_inner i (i + 1) objs), (i, objs))
      \<in> measure (\<lambda>(i, objs). length objs - i)"
    by (simp add: len)
qed

declare collide_outer.simps [simp del]

definition update :: "jsnum \<Rightarrow> sim \<Rightarrow> sim" where
  "update deltaTime s =
     (let dt = dt_factor deltaTime;
          objs = move_loop s dt 0 (objects s);
          objs = collide_outer 0 objs
      in s\<lparr>objects := objs\<rparr>)"

subsection \<open>One frame, with the reads that can throw\<close>

text \<open>
  Arithmetic and comparisons never throw. What can throw in a frame is a read of a field
  of \<open>this.objects[i]\<close>: beyond the end of the array the element is \<open>undefined\<close>, and
  reading \<open>undefined.vx\<close> is a TypeError. The loops below are the loops of \<open>update\<close> once
  more, with every such read checked; \<open>None\<close> is the thrown error.
\<close>

definition read :: "body list \<Rightarrow> nat \<Rightarrow> body option" where
  "read objs i = (if i < length objs then Some (objs ! i) else None)"

function move_loop_checked :: "sim \<Rightarrow> jsnum \<Rightarrow> nat \<Rightarrow> body list \<Rightarrow> body list option" where
  "move_loop_checked s dt i objs =
     (if i < length objs then
        case read objs i of
          None \<Rightarrow> None
        | Some obj \<Rightarrow>
            let obj = integrate (gravityEnabled s) (gravity s) dt obj;
                obj = boundary (canvas_width s) (canvas_height s) obj
            in move_loop_checked s dt (i + 1) (objs[i := obj])
      else Some objs)"
  by pat_completeness auto
termination
  by (relation "measure (\<lambda>(s, dt, i, objs). length objs - i)") auto

declare move_loop_checked.simps [simp del]

function collide_inner_checked :: "nat \<Rightarrow> nat \<Rightarrow> body list \<Rightarrow> body list option" where
  "collide_inner_checked i j objs =
     (if j < length objs then
        case read objs i of
          None \<Rightarrow> None
        | Some a \<Rightarrow>
            (case read objs j of
               None \<Rightarrow> None
             | Some b \<Rightarrow>
                 let (obj1, obj2) = checkCollision a b
                 in collide_inner_checked i (j + 1) (objs[i := obj1, j := obj2]))
      else Some objs)"
  by pat_completeness auto
termination
  by (relation "measure (\<lambda>(i, j, objs). length objs - j)") auto

declare collide_inner_checked.simps [simp del]

function collide_outer_checked :: "nat \<Rightarrow> body list \<Rightarrow> body list option" where
  "collide_outer_checked i objs =
     (if i < length objs then
        case collide_inner_checked i (i + 1) objs of
          None \<Rightarrow> None
        | Some objs' \<Rightarrow> collide_outer_checked (i + 1) objs'
      else Some objs)"
  by pat_completeness auto
termination
proof (relation "measure (\<lambda>(i, objs). length objs - i)")
  show "wf (measure (\<lambda>(i, objs). length objs - i))"
    by simp
next
  fix i :: nat and objs objs' :: "body list"
  assume less: "i < length objs" and some: "collide_inner_checked i (i + 1) objs = Some objs'"
  have len: "\<forall>os'. collide_inner_checked a j os = Some os' \<longrightarrow> length os' = length os"
    for a j os
  proof (induction a j os rule: collide_inner_checked.induct)
    case (1 a j os)
    from "1.IH" have IH: "\<forall>os'. collide_inner_checked a (Suc j) (os[a := obj1, j := obj2]) = Some os'
        \<longrightarrow> length os' = length os"
      if "j < length os" "a < length os" "checkCollision (os ! a) (os ! j) = (obj1, obj2)"
      for obj1 obj2
      using that by (simp add: read_def)
    show ?case
      by (subst collide_inner_checked.simps)
         (auto simp: read_def dest: IH split: prod.splits)
  qed
  from less len some show "((i + 1, objs'), (i, objs)) \<in> measure (\<lambda>(i, objs). length objs - i)"
    by simp
qed

declare collide_outer_checked.simps [simp del]

definition update_checked :: "jsnum \<Rightarrow> sim \<Rightarrow> sim option" where
  "update_checked deltaTime s =
     (let dt = dt_factor deltaTime
      in case move_loop_checked s dt 0 (objects s) of
           None \<Rightarrow> None
         | Some objs \<Rightarrow>
             (case collide_outer_checked 0 objs of
                None \<Rightarrow> None
              | Some objs \<Rightarrow> Some (s\<lparr>objects := objs\<rparr>)))"

subsection \<open>The public operations\<close>

datatype api_call =
  Spawn "nat \<Rightarrow> jsnum" jsnum jsnum
| Clear
| ToggleGravity
| Step jsnum

fun call :: "api_call \<Rightarrow> sim \<Rightarrow> sim" where
  "call (Spawn random px py) s = snd (addObjectAt random px py s)"
| "call Clear s = clearObjects s"
| "call ToggleGravity s = toggleGravity s"
| "call (Step deltaTime) s = update deltaTime s"

definition run :: "api_call list \<Rightarrow> sim \<Rightarrow> sim" where
  "run calls s = fold call calls s"

text \<open>
  The states reached from the initial one by spawning, clearing, toggling gravity and
  running frames. A click has finite coordinates, \<open>Math.random()\<close> returns a number in
  \<open>[0, 1)\<close>, and the render loop passes a difference of two readings of
  \<open>performance.now()\<close>, a finite time that is not negative.
\<close>

definition unit_draws :: "(nat \<Rightarrow> jsnum) \<Rightarrow> bool" where
  "unit_draws random = (\<forall>k < 4. Fin 0 \<le> random k \<and> random k < Fin 1)"

inductive reachable :: "sim \<Rightarrow> bool" where
  initial: "reachable PhysicsSimulation"
| spawn: "reachable s \<Longrightarrow> is_fin px \<Longrightarrow> is_fin py \<Longrightarrow> unit_draws random
    \<Longrightarrow> reachable (snd (addObjectAt random px py s))"
| clear: "reachable s \<Longrightarrow> reachable (clearObjects s)"
| toggle: "reachable s \<Longrightarrow> reachable (toggleGravity s)"
| frame: "reachable s \<Longrightarrow> is_fin deltaTime \<Longrightarrow> Fin 0 \<le> deltaTime
    \<Longrightarrow> reachable (update deltaTime s)"

section \<open>Notions used by the properties\<close>

definition finite_body :: "body \<Rightarrow> bool" where
  "finite_body b =
     (is_fin (x b) \<and> is_fin (y b) \<and> is_fin (vx b) \<and> is_fin (vy b) \<and> is_fin (radius b)
      \<and> is_fin (mass b) \<and> is_fin (restitution b) \<and> is_fin (friction b))"

definition in_bounds :: "jsnum \<Rightarrow> jsnum \<Rightarrow> body \<Rightarrow> bool" where
  "in_bounds width height b =
     (radius b \<le> x b \<and> x b \<le> width - radius b \<and> radius b \<le> y b \<and> y b \<le> height - radius b)"

text \<open>
  What the four boundary tests establish, in the operations of the tests: on the low
  side the centre is at least a radius from the wall; on the high side the test
  \<open>x + radius > width\<close> fails, or \<open>x\<close> is the value \<open>width - radius\<close> that the clamp
  assigns. In exact arithmetic this is \<open>in_bounds\<close>.
\<close>

definition within_walls :: "jsnum \<Rightarrow> jsnum \<Rightarrow> body \<Rightarrow> bool" where
  "within_walls width height b =
     (radius b \<le> x b \<and> (x b = width - radius b \<or> \<not> width < x b + radius b) \<and>
      radius b \<le> y b \<and> (y b = height - radius b \<or> \<not> height < y b + radius b))"

text \<open>The test of \<open>checkCollision\<close>.\<close>

definition overlapping :: "body \<Rightarrow> body \<Rightarrow> bool" where
  "overlapping obj1 obj2 = (distance obj1 obj2 < minDistance obj1 obj2)"

definition velocity :: "body \<Rightarrow> jsnum \<times> jsnum" where
  "velocity b = (vx b, vy b)"

definition dot :: "jsnum \<times> jsnum \<Rightarrow> jsnum \<times> jsnum \<Rightarrow> jsnum" where
  "dot u v = fst u * fst v + snd u * snd v"

definition vsub :: "jsnum \<times> jsnum \<Rightarrow> jsnum \<times> jsnum \<Rightarrow> jsnum \<times> jsnum" where
  "vsub u v = (fst u - fst v, snd u - snd v)"

definition normal :: "body \<Rightarrow> body \<Rightarrow> jsnum \<times> jsnum" where
  "normal obj1 obj2 = (normalX obj1 obj2, normalY obj1 obj2)"

text \<open>The component of a velocity along the tangent, the normal turned by a quarter.\<close>

definition tangential :: "jsnum \<times> jsnum \<Rightarrow> jsnum \<times> jsnum \<Rightarrow> jsnum" where
  "tangential v n = dot v (- snd n, fst n)"

text \<open>The parameters of a body that no frame may change.\<close>

definition material :: "body \<Rightarrow> jsnum \<times> jsnum \<times> jsnum \<times> jsnum \<times> jsnum" where
  "material b = (radius b, mass b, restitution b, friction b, color b)"

text \<open>
  The relative speed of two bodies along a direction, the combined restitution and the
  impulse, as the specification words them.
\<close>

definition normal_speed :: "jsnum \<times> jsnum \<Rightarrow> body \<Rightarrow> body \<Rightarrow> jsnum" where
  "normal_speed n obj1 obj2 = dot (vsub (velocity obj2) (velocity obj1)) n"

definition combined_restitution :: "body \<Rightarrow> body \<Rightarrow> jsnum" where
  "combined_restitution obj1 obj2 = Math_min (restitution obj1) (restitution obj2)"

definition impulse :: "body \<Rightarrow> body \<Rightarrow> jsnum" where
  "impulse obj1 obj2 =
     (Fin 1 + combined_restitution obj1 obj2) * normal_speed (normal obj1 obj2) obj1 obj2
       / (mass obj1 + mass obj2)"

text \<open>
  What every reachable state satisfies: the canvas is 600 by 400, gravity is
  \<open>(0, 0.5)\<close>, and every body has a finite radius with a diameter that fits into the
  canvas, a finite positive mass, and a finite restitution and friction. Positions and
  velocities are not part of it.
\<close>

definition sound_material :: "jsnum \<times> jsnum \<times> jsnum \<times> jsnum \<times> jsnum \<Rightarrow> bool" where
  "sound_material m =
     (case m of (r, m, e, f, c) \<Rightarrow>
        is_fin r \<and> r + r \<le> Fin 400 \<and> is_fin m \<and> Fin 0 < m \<and> is_fin e \<and> is_fin f)"

definition legal :: "sim \<Rightarrow> bool" where
  "legal s =
     (canvas_width s = Fin 600 \<and> canvas_height s = Fin 400 \<and> gravity s = (Fin 0, Fin 0.5) \<and>
      list_all sound_material (map material (objects s)))"

definition finite_motion :: "body \<Rightarrow> bool" where
  "finite_motion b = (is_fin (x b) \<and> is_fin (y b) \<and> is_fin (vx b) \<and> is_fin (vy b))"

subsection \<open>The frame as the specification phrases it\<close>

text \<open>
  \<open>clamp\<close> and the three phases follow the wording of the specification: the integrator
  over all bodies, then the boundary resolver over all bodies, then the collision
  resolver over all pairs \<open>i < j\<close> in ascending lexicographic order.
\<close>

definition clamp :: "jsnum \<Rightarrow> jsnum \<Rightarrow> jsnum \<Rightarrow> jsnum" where
  "clamp v lo hi = Math_max lo (Math_min v hi)"

definition Integrator :: "sim \<Rightarrow> jsnum \<Rightarrow> body list \<Rightarrow> body list" where
  "Integrator s dt objs = map (integrate (gravityEnabled s) (gravity s) dt) objs"

definition BoundaryResolver :: "sim \<Rightarrow> body list \<Rightarrow> body list" where
  "BoundaryResolver s objs = map (boundary (canvas_width s) (canvas_height s)) objs"

definition ascending_pairs :: "nat \<Rightarrow> (nat \<times> nat) list" where
  "ascending_pairs n = concat (map (\<lambda>i. map (Pair i) [i + 1 ..< n]) [0 ..< n])"

definition resolve_pair :: "nat \<times> nat \<Rightarrow> body list \<Rightarrow> body list" where
  "resolve_pair p objs =
     (let (obj1, obj2) = checkCollision (objs ! fst p) (objs ! snd p)
      in objs[fst p := obj1, snd p := obj2])"

definition CollisionResolver :: "body list \<Rightarrow> body list" where
  "CollisionResolver objs = fold resolve_pair (ascending_pairs (length objs)) objs"

text \<open>
  No pair has the computed distance 0 at the moment the collision resolver comes to it.
\<close>

fun nonzero_distances :: "(nat \<times> nat) list \<Rightarrow> body list \<Rightarrow> bool" where
  "nonzero_distances [] objs = True"
| "nonzero_distances (p # ps) objs =
     (distance (objs ! fst p) (objs ! snd p) \<noteq> Fin 0 \<and>
      nonzero_distances ps (resolve_pair p objs))"

definition step :: "jsnum \<Rightarrow> sim \<Rightarrow> sim" where
  "step elapsed_ms s =
     s\<lparr>objects :=
         CollisionResolver (BoundaryResolver s (Integrator s (dt_factor elapsed_ms) (objects s)))\<rparr>"

subsection \<open>Concrete worlds\<close>

text \<open>Draws that give radius 10, mass 2 and a body at rest.\<close>

definition still_draws :: "nat \<Rightarrow> jsnum" where
  "still_draws k = (if k = 2 \<or> k = 3 then Fin 0.5 else Fin 0)"

definition still_body :: "real \<Rightarrow> real \<Rightarrow> body" where
  "still_body px py =
     \<lparr>x = Fin px, y = Fin py, vx = Fin 0, vy = Fin 0, radius = Fin 10, mass = Fin 2,
      color = Fin 0, restitution = Fin 0.8, friction = Fin 0.99\<rparr>"

definition two_bodies :: "real \<Rightarrow> real \<Rightarrow> real \<Rightarrow> real \<Rightarrow> sim" where
  "two_bodies px py qx qy =
     snd (addObjectAt still_draws (Fin qx) (Fin qy)
       (snd (addObjectAt still_draws (Fin px) (Fin py) PhysicsSimulation)))"

text \<open>Two bodies spawned next to the left wall.\<close>

definition world_wall :: sim where
  "world_wall = two_bodies 10 100 12 100"

text \<open>
  Two clicks at the same point. The second body has radius 13.75 and velocity
  \<open>(-2.5, -2.5)\<close>.
\<close>

definition quarter_draws :: "nat \<Rightarrow> jsnum" where
  "quarter_draws k = Fin (1 / 4)"

definition world_same :: sim where
  "world_same =
     snd (addObjectAt quarter_draws (Fin 100) (Fin 100)
       (snd (addObjectAt still_draws (Fin 100) (Fin 100) PhysicsSimulation)))"

text \<open>
  A still body spawned at height 100, after the first loop of a frame of 16.67 ms with
  gravity: it has gained the speed \<open>0.5 * 0.99\<close> and fallen by as much.
\<close>

definition falling :: "real \<Rightarrow> body" where
  "falling px =
     \<lparr>x = Fin px, y = Fin (20099 / 200), vx = Fin 0, vy = Fin (99 / 200), radius = Fin 10,
      mass = Fin 2, color = Fin 0, restitution = Fin 0.8, friction = Fin 0.99\<rparr>"

text \<open>
  The pair that the collision resolver meets in the first frame of \<open>world_same\<close>, a
  frame with elapsed time 0.
\<close>

definition same_pair :: "body \<times> body" where
  "same_pair =
     (let objs = move_loop world_same (dt_factor (Fin 0)) 0 (objects world_same)
      in (objs ! 0, objs ! 1))"

text \<open>The two bodies next to the left wall and a third one far from them.\<close>

definition world_crowd :: sim where
  "world_crowd = snd (addObjectAt still_draws (Fin 400) (Fin 100) world_wall)"

text \<open>Fifty spawns at one point.\<close>

definition world_full :: sim where
  "world_full = run (replicate 50 (Spawn still_draws (Fin 100) (Fin 100))) PhysicsSimulation"

text \<open>
  A body of radius 10 and mass 2 on the line \<open>y = 50\<close>, moving along it, and the two
  bodies of the collision scenario, with restitutions \<open>e1\<close> and \<open>e2\<close>.
\<close>

definition disc :: "real \<Rightarrow> real \<Rightarrow> real \<Rightarrow> body" where
  "disc px pvx e =
     \<lparr>x = Fin px, y = Fin 50, vx = Fin pvx, vy = Fin 0, radius = Fin 10, mass = Fin 2,
      color = Fin 0, restitution = Fin e, friction = Fin 0.99\<rparr>"

text \<open>A body at rest at \<open>(46, 58)\<close>: from \<open>(40, 50)\<close> it lies in the direction \<open>(3/5, 4/5)\<close>.\<close>

definition slanted :: body where
  "slanted = (disc 46 0 (4 / 5))\<lparr>y := Fin 58\<rparr>"

definition scenario_left :: "real \<Rightarrow> body" where
  "scenario_left e1 = disc 40 2 e1"

definition scenario_right :: "real \<Rightarrow> body" where
  "scenario_right e2 = disc 58 (- 2) e2"

section \<open>Arithmetic on finite numbers\<close>

lemma Fin_minus [simp]: "Fin a - Fin b = Fin (a - b)"
  by (simp add: minus_jsnum_def)

lemma Math_min_Fin [simp]: "Math_min (Fin a) (Fin b) = Fin (min a b)"
  by (simp add: min_def)

lemma sqrt_324: "sqrt 324 = 18"
  by (rule real_sqrt_unique) simp_all

lemma sqrt_100: "sqrt 100 = 10"
  by (rule real_sqrt_unique) simp_all

lemmas collision_defs =
  checkCollision_def distance_def minDistance_def normalX_def normalY_def relativeSpeed_def

text \<open>The bodies of the collision scenario.\<close>

lemma disc_fields [simp]:
  "x (disc px pvx e) = Fin px" "y (disc px pvx e) = Fin 50"
  "vx (disc px pvx e) = Fin pvx" "vy (disc px pvx e) = Fin 0"
  "radius (disc px pvx e) = Fin 10" "mass (disc px pvx e) = Fin 2"
  "restitution (disc px pvx e) = Fin e" "friction (disc px pvx e) = Fin 0.99"
  by (simp_all add: disc_def)

lemma finite_body_disc [simp]: "finite_body (disc px pvx e)"
  by (simp add: finite_body_def)

lemma disc_pair [simp]:
  "distance (disc 40 v1 e1) (disc 58 v2 e2) = Fin 18"
  "normalX (disc 40 v1 e1) (disc 58 v2 e2) = Fin 1"
  "normalY (disc 40 v1 e1) (disc 58 v2 e2) = Fin 0"
  "overlapping (disc 40 v1 e1) (disc 58 v2 e2)"
  "normal_speed (Fin 1, Fin 0) (disc px v1 e1) (disc qx v2 e2) = Fin (v2 - v1)"
  "combined_restitution (disc px v1 e1) (disc qx v2 e2) = Fin (min e1 e2)"
  by (simp_all add: overlapping_def normalX_def normalY_def distance_def minDistance_def
      normal_speed_def dot_def vsub_def velocity_def combined_restitution_def sqrt_324 Let_def)

lemma disc_impulse [simp]:
  "impulse (disc 40 v1 e1) (disc 58 v2 e2) = Fin ((1 + min e1 e2) * (v2 - v1) / 4)"
  by (simp add: impulse_def normal_def)

section \<open>The timestep factor\<close>

lemma dt_factor_at_most_2: "\<not> Fin 2 < dt_factor e"
  by (cases e) (simp_all add: dt_factor_def)

lemma dt_factor_clamp:
  "Fin 0 \<le> e \<Longrightarrow> dt_factor e = clamp (e / Fin 16.67) (Fin 0) (Fin 2) \<and> Fin 0 \<le> dt_factor e"
  by (cases e) (simp_all add: dt_factor_def clamp_def min_def)

text \<open>
  C5: \<open>update\<close> runs a frame with the factor \<open>Math.min(deltaTime / 16.67, 2)\<close>. For
  every elapsed time it receives, which is never negative, the factor equals
  \<open>clamp(elapsed_ms / 16.67, 0, 2)\<close>; it is not negative and does not exceed 2.
\<close>

theorem dt_factor_capped:
  "update e s = s\<lparr>objects := collide_outer 0 (move_loop s (dt_factor e) 0 (objects s))\<rparr> \<and>
   \<not> Fin 2 < dt_factor e \<and>
   (Fin 0 \<le> e \<longrightarrow>
      dt_factor e = clamp (e / Fin 16.67) (Fin 0) (Fin 2) \<and>
      Fin 0 \<le> dt_factor e \<and> dt_factor e \<le> Fin 2)"
proof -
  have "dt_factor e \<le> Fin 2" if "Fin 0 \<le> e"
    using that by (cases e) (simp_all add: dt_factor_def)
  moreover have "update e s =
      s\<lparr>objects := collide_outer 0 (move_loop s (dt_factor e) 0 (objects s))\<rparr>"
    by (simp add: update_def Let_def)
  ultimately show ?thesis
    using dt_factor_at_most_2 [of e] dt_factor_clamp [of e] by blast
qed

theorem dt_factor_capped_witness:
  "Fin 0 \<le> Fin 50 \<and> dt_factor (Fin 50) = clamp (Fin 50 / Fin 16.67) (Fin 0) (Fin 2)
   \<and> dt_factor (Fin 50) = Fin 2"
  using dt_factor_capped [of "Fin 50" PhysicsSimulation] by (simp add: dt_factor_def)

section \<open>The collision scenario\<close>

lemma scenario_pass:
  "checkCollision (scenario_left e1) (scenario_right e2) =
     ((scenario_left e1)\<lparr>x := Fin 39, vx := Fin (- 2 * min e1 e2)\<rparr>,
      (scenario_right e2)\<lparr>x := Fin 59, vx := Fin (2 * min e1 e2)\<rparr>)"
  by (simp add: collision_defs scenario_left_def scenario_right_def disc_def sqrt_324 Let_def
      min_def field_simps)

text \<open>
  C9, as the code has it: the centres \<open>(40,50)\<close> and \<open>(58,50)\<close> are 18 apart, the radii
  sum to 20, so the overlap is 2 and one pass moves each centre by 1 along \<open>x\<close>, to 39
  and 59. The velocities \<open>(2,0)\<close> and \<open>(-2,0)\<close> become \<open>(-2e,0)\<close> and \<open>(2e,0)\<close>, where
  \<open>e\<close> is the smaller of the two restitutions; nothing else changes.
\<close>

theorem scenario_resolution:
  "checkCollision (scenario_left e1) (scenario_right e2) =
     ((scenario_left e1)\<lparr>x := Fin (40 - 1), vx := Fin (- (min e1 e2 * 2))\<rparr>,
      (scenario_right e2)\<lparr>x := Fin (58 + 1), vx := Fin (min e1 e2 * 2)\<rparr>)"
  by (simp add: scenario_pass)

text \<open>
  C9 as stated fails: the overlap is not 8 and the centres do not move by 4 units.
\<close>

theorem scenario_not_four_units:
  "x (fst (checkCollision (scenario_left 0.8) (scenario_right 0.8))) \<noteq> Fin (40 - 4) \<and>
   x (snd (checkCollision (scenario_left 0.8) (scenario_right 0.8))) \<noteq> Fin (58 + 4) \<and>
   minDistance (scenario_left 0.8) (scenario_right 0.8)
     - distance (scenario_left 0.8) (scenario_right 0.8) \<noteq> Fin 8"
  by (simp add: scenario_pass)
     (simp add: scenario_left_def scenario_right_def disc_def distance_def minDistance_def
      sqrt_324)

section \<open>The loops of a frame\<close>

lemma length_move_loop [simp]: "length (move_loop s dt i objs) = length objs"
  by (induction s dt i objs rule: move_loop.induct; subst move_loop.simps) (simp add: Let_def)

lemma move_loop_eq:
  "i \<le> length objs \<Longrightarrow>
   move_loop s dt i objs =
     take i objs @
     map (\<lambda>obj. boundary (canvas_width s) (canvas_height s)
                  (integrate (gravityEnabled s) (gravity s) dt obj)) (drop i objs)"
proof (induction s dt i objs rule: move_loop.induct)
  case (1 s dt i objs)
  show ?case
  proof (cases "i < length objs")
    case True
    then show ?thesis
      using "1.IH" [OF True refl refl refl]
      by (subst move_loop.simps)
         (simp add: Let_def take_Suc_conv_app_nth flip: Cons_nth_drop_Suc)
  next
    case False
    with "1.prems" show ?thesis
      by (subst move_loop.simps) simp
  qed
qed

lemma move_loop_phases:
  "move_loop s dt 0 objs = BoundaryResolver s (Integrator s dt objs)"
  by (simp add: move_loop_eq BoundaryResolver_def Integrator_def)

lemma move_loop_map:
  "move_loop s dt 0 objs =
     map (\<lambda>obj. boundary (canvas_width s) (canvas_height s)
                  (integrate (gravityEnabled s) (gravity s) dt obj)) objs"
  by (simp add: move_loop_eq)

lemma length_resolve_pair [simp]: "length (resolve_pair p objs) = length objs"
  by (simp add: resolve_pair_def split: prod.splits)

lemma length_fold_resolve_pair [simp]: "length (fold resolve_pair ps objs) = length objs"
  by (induction ps arbitrary: objs) simp_all

lemma collide_inner_eq:
  "collide_inner i j objs = fold resolve_pair (map (Pair i) [j ..< length objs]) objs"
proof (induction i j objs rule: collide_inner.induct)
  case (1 i j objs)
  show ?case
  proof (cases "j < length objs")
    case True
    obtain a b where ab: "checkCollision (objs ! i) (objs ! j) = (a, b)"
      by (cases "checkCollision (objs ! i) (objs ! j)")
    from ab have step: "resolve_pair (i, j) objs = objs[i := a, j := b]"
      by (simp add: resolve_pair_def)
    from True ab "1.IH" [OF True ab [symmetric] refl] show ?thesis
      by (subst collide_inner.simps) (simp add: upt_conv_Cons step)
  next
    case False
    then show ?thesis
      by (subst collide_inner.simps) simp
  qed
qed

lemma length_collide_inner [simp]: "length (collide_inner i j objs) = length objs"
  by (simp add: collide_inner_eq)

lemma collide_outer_eq:
  "collide_outer i objs =
     fold resolve_pair
       (concat (map (\<lambda>i. map (Pair i) [i + 1 ..< length objs]) [i ..< length objs])) objs"
proof (induction i objs rule: collide_outer.induct)
  case (1 i objs)
  show ?case
  proof (cases "i < length objs")
    case True
    from True "1.IH" [OF True] show ?thesis
      by (subst collide_outer.simps) (simp add: upt_conv_Cons collide_inner_eq)
  next
    case False
    then show ?thesis
      by (subst collide_outer.simps) simp
  qed
qed

lemma collide_outer_pairs: "collide_outer 0 objs = CollisionResolver objs"
  by (simp add: collide_outer_eq CollisionResolver_def ascending_pairs_def)

lemma update_eq_step: "update deltaTime s = step deltaTime s"
  by (simp add: update_def step_def Let_def move_loop_phases collide_outer_pairs)

text \<open>
  C8: for every state and elapsed time, \<open>update\<close> gives the result of running the
  integrator over all bodies, then the boundary resolver over all bodies, then the
  collision resolver over all pairs \<open>i < j\<close> in ascending order. The source moves and
  clamps body by body in one loop; this cannot be observed, since neither half reads
  another body.
\<close>

theorem update_phased: "update deltaTime s = step deltaTime s"
  by (rule update_eq_step)

section \<open>The integrator\<close>

text \<open>
  C4: in every frame every body goes through the integrator (and then the boundary
  tests). The integrator adds gravity times the timestep factor to the velocity when
  gravity is enabled, then multiplies the velocity by the friction, then adds the new
  velocity times the timestep factor to the position. With gravity disabled the velocity
  after the integration is the old velocity times the friction.
\<close>

theorem integrate_order:
  "move_loop s dt 0 objs =
     map (\<lambda>obj. boundary (canvas_width s) (canvas_height s)
                  (integrate (gravityEnabled s) (gravity s) dt obj)) objs
   \<and> integrate gEnabled g dt obj =
     obj\<lparr>vx := (if gEnabled then vx obj + fst g * dt else vx obj) * friction obj,
         vy := (if gEnabled then vy obj + snd g * dt else vy obj) * friction obj,
         x := x obj + (if gEnabled then vx obj + fst g * dt else vx obj) * friction obj * dt,
         y := y obj + (if gEnabled then vy obj + snd g * dt else vy obj) * friction obj * dt\<rparr>
   \<and> (\<not> gEnabled \<longrightarrow>
        velocity (integrate gEnabled g dt obj) = (vx obj * friction obj, vy obj * friction obj))"
  by (simp add: move_loop_map) (simp add: integrate_def Let_def velocity_def)

theorem integrate_order_witness:
  "\<not> False \<and>
   velocity (integrate False (Fin 0, Fin 0.5) (Fin 1) ((still_body 50 10)\<lparr>vy := Fin 3\<rparr>))
     = (Fin 0, Fin 2.97)"
  using integrate_order [of PhysicsSimulation "Fin 1" "[]" False "(Fin 0, Fin 0.5)"
      "(still_body 50 10)\<lparr>vy := Fin 3\<rparr>"]
  by (simp add: still_body_def velocity_def)

section \<open>What a frame leaves alone\<close>

lemma material_integrate [simp]: "material (integrate gEnabled g dt obj) = material obj"
  by (simp add: integrate_def material_def Let_def)

lemma material_boundary [simp]: "material (boundary w h obj) = material obj"
  by (simp add: boundary_def material_def Let_def)

lemma material_checkCollision [simp]:
  "material (fst (checkCollision obj1 obj2)) = material obj1"
  "material (snd (checkCollision obj1 obj2)) = material obj2"
  by (simp_all add: checkCollision_def material_def Let_def)

lemma map_update_same: "(map f xs)[i := f (xs ! i)] = map f xs"
  by (cases "i < length xs") (simp_all add: list_update_same_conv list_update_beyond)

lemma material_resolve_pair [simp]: "map material (resolve_pair p objs) = map material objs"
proof -
  obtain a b where ab: "checkCollision (objs ! fst p) (objs ! snd p) = (a, b)"
    by (cases "checkCollision (objs ! fst p) (objs ! snd p)")
  have a: "material a = material (objs ! fst p)" and b: "material b = material (objs ! snd p)"
    using material_checkCollision [of "objs ! fst p" "objs ! snd p"] by (simp_all add: ab)
  have "map material (resolve_pair p objs) = (map material objs)[fst p := material a, snd p := material b]"
    by (simp add: resolve_pair_def ab map_update)
  also have "\<dots> = map material objs"
    by (simp only: a b map_update_same)
  finally show ?thesis .
qed

lemma material_fold_resolve_pair [simp]:
  "map material (fold resolve_pair ps objs) = map material objs"
  by (induction ps arbitrary: objs) simp_all

lemma material_step: "map material (objects (step deltaTime s)) = map material (objects s)"
  by (simp add: step_def CollisionResolver_def BoundaryResolver_def Integrator_def comp_def)

lemma length_update [simp]: "length (objects (update deltaTime s)) = length (objects s)"
  by (simp add: update_eq_step step_def CollisionResolver_def BoundaryResolver_def Integrator_def)

lemma material_update:
  "map material (objects (update deltaTime s)) = map material (objects s)"
  by (simp add: update_eq_step material_step)

text \<open>
  C10: a frame changes positions and velocities only. The number of bodies stays the
  same, every body keeps its radius, mass, restitution, friction and colour, and the
  gravity vector, the gravity flag and the canvas size are unchanged: the new state is
  the old one with a new object list.
\<close>

theorem update_frame:
  "length (objects (update deltaTime s)) = length (objects s) \<and>
   map material (objects (update deltaTime s)) = map material (objects s) \<and>
   gravity (update deltaTime s) = gravity s \<and>
   gravityEnabled (update deltaTime s) = gravityEnabled s \<and>
   canvas_width (update deltaTime s) = canvas_width s \<and>
   canvas_height (update deltaTime s) = canvas_height s \<and>
   update deltaTime s = s\<lparr>objects := objects (update deltaTime s)\<rparr>"
  by (simp add: material_update) (simp add: update_def Let_def)

section \<open>The population cap\<close>

lemma call_cap: "length (objects s) \<le> 50 \<Longrightarrow> length (objects (call c s)) \<le> 50"
  by (cases c)
     (simp_all add: addObjectAt_def updateObjectCount_def clearObjects_def toggleGravity_def Let_def)

lemma run_cap: "length (objects s) \<le> 50 \<Longrightarrow> length (objects (run calls s)) \<le> 50"
  unfolding run_def by (induction calls arbitrary: s) (simp_all add: call_cap)

lemma addObjectAt_full:
  "50 \<le> length (objects s) \<Longrightarrow> addObjectAt random px py s = (Undefined, s)"
  by (simp add: addObjectAt_def)

lemma spawn_still:
  "length (objects s) < 50 \<Longrightarrow>
   snd (addObjectAt still_draws (Fin px) (Fin py) s) =
     s\<lparr>objects := objects s @ [still_body px py], objectCount := Suc (length (objects s))\<rparr>"
  by (simp add: addObjectAt_def still_draws_def still_body_def updateObjectCount_def Let_def)

lemma run_spawns:
  "n + length (objects s) \<le> 50 \<Longrightarrow>
   objects (run (replicate n (Spawn still_draws (Fin px) (Fin py))) s) =
     objects s @ replicate n (still_body px py)"
proof (induction n arbitrary: s)
  case 0
  then show ?case by (simp add: run_def)
next
  case (Suc n)
  let ?s = "snd (addObjectAt still_draws (Fin px) (Fin py) s)"
  from Suc.prems have "length (objects s) < 50" by simp
  then have s': "objects ?s = objects s @ [still_body px py]"
    by (simp add: spawn_still)
  with Suc.prems have "n + length (objects ?s) \<le> 50" by simp
  from Suc.IH [OF this] show ?case
    by (simp add: run_def s' replicate_app_Cons_same)
qed

lemma world_full_objects: "objects world_full = replicate 50 (still_body 100 100)"
  unfolding world_full_def by (subst run_spawns) (simp_all add: PhysicsSimulation_def)

text \<open>
  C6, as the code has it: with exactly 50 bodies \<open>addObjectAt\<close> returns at once; it
  yields \<open>undefined\<close> and leaves the whole state as it was. No sequence of spawns,
  clears, gravity toggles and frames from the initial state has more than 50 bodies.
\<close>

theorem spawn_at_cap:
  "(length (objects s) = 50 \<longrightarrow> addObjectAt random px py s = (Undefined, s)) \<and>
   length (objects (run calls PhysicsSimulation)) \<le> 50"
  by (simp add: addObjectAt_full run_cap PhysicsSimulation_def)

theorem spawn_at_cap_witness:
  "length (objects world_full) = 50 \<and>
   addObjectAt still_draws (Fin 1) (Fin 1) world_full = (Undefined, world_full)"
  using spawn_at_cap [of world_full still_draws "Fin 1" "Fin 1" "[]"]
  by (simp add: world_full_objects)

text \<open>
  C6 as stated fails: at the cap the call does not return an error value; it returns
  what a successful spawn returns.
\<close>

theorem spawn_at_cap_no_signal:
  "fst (addObjectAt still_draws (Fin 100) (Fin 100) world_full) \<noteq> Error ''CapacityExceeded'' \<and>
   fst (addObjectAt still_draws (Fin 100) (Fin 100) world_full)
     = fst (addObjectAt still_draws (Fin 100) (Fin 100) PhysicsSimulation) \<and>
   length (objects (snd (addObjectAt still_draws (Fin 100) (Fin 100) PhysicsSimulation))) = 1"
  by (simp add: addObjectAt_full world_full_objects)
     (simp add: addObjectAt_def PhysicsSimulation_def Let_def updateObjectCount_def)


section \<open>Collisions of finite bodies\<close>

lemma is_finE: "is_fin a \<Longrightarrow> (\<And>r. a = Fin r \<Longrightarrow> P) \<Longrightarrow> P"
  by (cases a) simp_all

lemma finite_bodyE:
  assumes "finite_body b"
  obtains px py pvx pvy r m c e f where
    "b = \<lparr>x = Fin px, y = Fin py, vx = Fin pvx, vy = Fin pvy, radius = Fin r, mass = Fin m,
          color = c, restitution = Fin e, friction = Fin f\<rparr>"
proof -
  from assms have "is_fin (x b)" "is_fin (y b)" "is_fin (vx b)" "is_fin (vy b)"
    "is_fin (radius b)" "is_fin (mass b)" "is_fin (restitution b)" "is_fin (friction b)"
    by (simp_all add: finite_body_def)
  then obtain px py pvx pvy r m e f where
    "x b = Fin px" "y b = Fin py" "vx b = Fin pvx" "vy b = Fin pvy"
    "radius b = Fin r" "mass b = Fin m" "restitution b = Fin e" "friction b = Fin f"
    by (elim is_finE)
  then have "b = \<lparr>x = Fin px, y = Fin py, vx = Fin pvx, vy = Fin pvy, radius = Fin r, mass = Fin m,
          color = color b, restitution = Fin e, friction = Fin f\<rparr>"
    by (cases b) simp
  then show ?thesis ..
qed

lemma squares_not_neg [simp]: "\<not> a * a + b * b < (0::real)"
  by (simp add: not_less)

lemma sqrt_squares_zero: "sqrt (a * a + b * b) = 0 \<longleftrightarrow> a = 0 \<and> b = 0"
  by (simp add: sum_squares_eq_zero_iff)

lemma unit_normal:
  assumes "d = sqrt (a * a + b * b)" and "d \<noteq> 0"
  shows "a / d * (a / d) + b / d * (b / d) = 1"
proof -
  have dd: "a * a + b * b = d * d"
    using assms(1) by simp
  have "a / d * (a / d) + b / d * (b / d) = (a * a + b * b) / (d * d)"
    by (simp only: times_divide_times_eq add_divide_distrib)
  also have "\<dots> = 1"
    using assms(2) by (simp only: dd) simp
  finally show ?thesis .
qed


lemma velocity_separating:
  assumes "overlapping obj1 obj2" and "Fin 0 < normal_speed (normal obj1 obj2) obj1 obj2"
  shows "velocity (fst (checkCollision obj1 obj2)) = velocity obj1"
    and "velocity (snd (checkCollision obj1 obj2)) = velocity obj2"
  using assms
  by (simp_all add: checkCollision_def overlapping_def normal_speed_def normal_def dot_def
      vsub_def velocity_def relativeSpeed_def Let_def)

lemma velocity_impulse:
  assumes "overlapping obj1 obj2" and "\<not> Fin 0 < normal_speed (normal obj1 obj2) obj1 obj2"
  shows "velocity (fst (checkCollision obj1 obj2)) =
           (vx obj1 + impulse obj1 obj2 * mass obj2 * normalX obj1 obj2,
            vy obj1 + impulse obj1 obj2 * mass obj2 * normalY obj1 obj2)"
    and "velocity (snd (checkCollision obj1 obj2)) =
           (vx obj2 - impulse obj1 obj2 * mass obj1 * normalX obj1 obj2,
            vy obj2 - impulse obj1 obj2 * mass obj1 * normalY obj1 obj2)"
  using assms
  by (simp_all add: checkCollision_def overlapping_def normal_speed_def normal_def dot_def
      vsub_def velocity_def relativeSpeed_def impulse_def combined_restitution_def Let_def)


lemma normal_fin:
  assumes "finite_body obj1" and "finite_body obj2"
    and "(x obj1, y obj1) \<noteq> (x obj2, y obj2)"
  obtains d nx ny where "distance obj1 obj2 = Fin d" and "0 < d"
    and "normalX obj1 obj2 = Fin nx" and "normalY obj1 obj2 = Fin ny"
    and "nx * nx + ny * ny = 1"
proof -
  from assms(1) obtain x1 y1 v1 w1 r1 m1 c1 e1 f1 where o1:
    "obj1 = \<lparr>x = Fin x1, y = Fin y1, vx = Fin v1, vy = Fin w1, radius = Fin r1, mass = Fin m1,
          color = c1, restitution = Fin e1, friction = Fin f1\<rparr>"
    by (rule finite_bodyE)
  from assms(2) obtain x2 y2 v2 w2 r2 m2 c2 e2 f2 where o2:
    "obj2 = \<lparr>x = Fin x2, y = Fin y2, vx = Fin v2, vy = Fin w2, radius = Fin r2, mass = Fin m2,
          color = c2, restitution = Fin e2, friction = Fin f2\<rparr>"
    by (rule finite_bodyE)
  define d where "d = sqrt ((x2 - x1) * (x2 - x1) + (y2 - y1) * (y2 - y1))"
  have dist: "distance obj1 obj2 = Fin d"
    by (simp add: distance_def o1 o2 d_def Let_def)
  from assms(3) have "x2 - x1 \<noteq> 0 \<or> y2 - y1 \<noteq> 0"
    by (auto simp: o1 o2)
  then have "d \<noteq> 0"
    unfolding d_def sqrt_squares_zero by simp
  moreover have "0 \<le> d"
    by (simp add: d_def)
  ultimately have pos: "0 < d"
    by simp
  have nX: "normalX obj1 obj2 = Fin ((x2 - x1) / d)"
    using \<open>d \<noteq> 0\<close> by (simp add: normalX_def dist) (simp add: o1 o2)
  have nY: "normalY obj1 obj2 = Fin ((y2 - y1) / d)"
    using \<open>d \<noteq> 0\<close> by (simp add: normalY_def dist) (simp add: o1 o2)
  from d_def \<open>d \<noteq> 0\<close>
  have "(x2 - x1) / d * ((x2 - x1) / d) + (y2 - y1) / d * ((y2 - y1) / d) = 1"
    by (rule unit_normal)
  with dist pos nX nY show ?thesis
    by (rule that)
qed

lemma relative_speed_after:
  fixes J :: real
  assumes "M = m1 + m2" and "M \<noteq> 0" and "nx * nx + ny * ny = 1"
    and "R = (v2 - v1) * nx + (w2 - w1) * ny" and "J = (1 + e) * R / M"
  shows "((v2 - J * m1 * nx) - (v1 + J * m2 * nx)) * nx
       + ((w2 - J * m1 * ny) - (w1 + J * m2 * ny)) * ny = - (e * R)"
proof -
  have "((v2 - J * m1 * nx) - (v1 + J * m2 * nx)) * nx
       + ((w2 - J * m1 * ny) - (w1 + J * m2 * ny)) * ny
       = R - J * M * (nx * nx + ny * ny)"
    by (simp add: assms(1,4) algebra_simps)
  also have "J * M = (1 + e) * R"
    using assms(2,5) by simp
  finally show ?thesis
    by (simp add: assms(3) algebra_simps)
qed


lemma times_NaN [simp]: "a * NaN = NaN" "NaN * a = NaN"
  by (cases a; simp)+

lemma plus_NaN [simp]: "a + NaN = NaN" "NaN + a = NaN"
  by (cases a; simp)+

lemma minus_NaN [simp]: "a - NaN = NaN" "NaN - a = NaN"
  by (simp_all add: minus_jsnum_def)

lemma normal_coincident:
  assumes "finite_body obj1" and "(x obj1, y obj1) = (x obj2, y obj2)"
  shows "distance obj1 obj2 = Fin 0" and "normalX obj1 obj2 = NaN" and "normalY obj1 obj2 = NaN"
proof -
  from assms(1) have "is_fin (x obj1)" "is_fin (y obj1)"
    by (simp_all add: finite_body_def)
  then obtain x1 y1 where "x obj1 = Fin x1" "y obj1 = Fin y1"
    by (elim is_finE)
  with assms(2) have xy: "x obj1 = Fin x1" "y obj1 = Fin y1" "x obj2 = Fin x1" "y obj2 = Fin y1"
    by simp_all
  show d: "distance obj1 obj2 = Fin 0"
    by (simp add: distance_def xy Let_def)
  show "normalX obj1 obj2 = NaN" "normalY obj1 obj2 = NaN"
    by (simp_all add: normalX_def normalY_def d) (simp_all add: xy)
qed

lemma tangential_NaN [simp]: "tangential v (NaN, NaN) = NaN"
  by (simp add: tangential_def dot_def)

lemma checkCollision_finite:
  assumes fin: "finite_body obj1" "finite_body obj2"
    and pos: "Fin 0 < mass obj1" "Fin 0 < mass obj2"
    and nonzero: "distance obj1 obj2 \<noteq> Fin 0"
  shows "finite_body (fst (checkCollision obj1 obj2))"
    and "finite_body (snd (checkCollision obj1 obj2))"
proof -
  from fin(1) nonzero have centres: "(x obj1, y obj1) \<noteq> (x obj2, y obj2)"
    using normal_coincident(1) by blast
  with fin obtain d :: real and nx ny where
    n: "distance obj1 obj2 = Fin d" "normalX obj1 obj2 = Fin nx" "normalY obj1 obj2 = Fin ny"
    by (rule normal_fin)
  from fin(1) obtain x1 y1 v1 w1 r1 m1 c1 e1 f1 where o1:
    "obj1 = \<lparr>x = Fin x1, y = Fin y1, vx = Fin v1, vy = Fin w1, radius = Fin r1, mass = Fin m1,
      color = c1, restitution = Fin e1, friction = Fin f1\<rparr>"
    by (rule finite_bodyE)
  from fin(2) obtain x2 y2 v2 w2 r2 m2 c2 e2 f2 where o2:
    "obj2 = \<lparr>x = Fin x2, y = Fin y2, vx = Fin v2, vy = Fin w2, radius = Fin r2, mass = Fin m2,
      color = c2, restitution = Fin e2, friction = Fin f2\<rparr>"
    by (rule finite_bodyE)
  from pos have M: "m1 + m2 \<noteq> 0"
    by (simp add: o1 o2)
  have "finite_body (fst (checkCollision obj1 obj2)) \<and> finite_body (snd (checkCollision obj1 obj2))"
    using M by (simp add: checkCollision_def n Let_def)
      (simp add: o1 o2 minDistance_def relativeSpeed_def finite_body_def)
  then show "finite_body (fst (checkCollision obj1 obj2))"
    and "finite_body (snd (checkCollision obj1 obj2))"
    by simp_all
qed

lemma normal_speed_NaN [simp]: "normal_speed (NaN, NaN) obj1 obj2 = NaN"
  by (simp add: normal_speed_def dot_def)

text \<open>
  In exact arithmetic an approaching pair leaves with its relative speed along the normal
  reversed and scaled by the combined restitution. The doubles of the code round every
  operation, so there the two sides agree only up to rounding.
\<close>

lemma relative_speed_reversed:
  assumes fin: "finite_body obj1" "finite_body obj2"
    and pos: "Fin 0 < mass obj1" "Fin 0 < mass obj2"
    and ov: "overlapping obj1 obj2"
    and approaching: "normal_speed (normal obj1 obj2) obj1 obj2 \<le> Fin 0"
  shows "normal_speed (normal obj1 obj2) (fst (checkCollision obj1 obj2))
             (snd (checkCollision obj1 obj2))
           = - (combined_restitution obj1 obj2 * normal_speed (normal obj1 obj2) obj1 obj2)"
proof -
  have centres: "(x obj1, y obj1) \<noteq> (x obj2, y obj2)"
  proof
    assume "(x obj1, y obj1) = (x obj2, y obj2)"
    with fin(1) have "normal obj1 obj2 = (NaN, NaN)"
      by (simp add: normal_def normal_coincident)
    with approaching show False
      by simp
  qed
  with fin obtain d :: real and nx ny where
    n: "normalX obj1 obj2 = Fin nx" "normalY obj1 obj2 = Fin ny" and unit: "nx * nx + ny * ny = 1"
    by (rule normal_fin)
  from fin(1) obtain x1 y1 v1 w1 r1 m1 c1 e1 f1 where o1:
    "obj1 = \<lparr>x = Fin x1, y = Fin y1, vx = Fin v1, vy = Fin w1, radius = Fin r1, mass = Fin m1,
      color = c1, restitution = Fin e1, friction = Fin f1\<rparr>"
    by (rule finite_bodyE)
  from fin(2) obtain x2 y2 v2 w2 r2 m2 c2 e2 f2 where o2:
    "obj2 = \<lparr>x = Fin x2, y = Fin y2, vx = Fin v2, vy = Fin w2, radius = Fin r2, mass = Fin m2,
      color = c2, restitution = Fin e2, friction = Fin f2\<rparr>"
    by (rule finite_bodyE)
  define M where "M = m1 + m2"
  define R where "R = (v2 - v1) * nx + (w2 - w1) * ny"
  define e where "e = min e1 e2"
  define J where "J = (1 + e) * R / M"
  from pos have M: "M \<noteq> 0"
    by (simp add: o1 o2 M_def)
  have e: "combined_restitution obj1 obj2 = Fin e"
    by (simp add: combined_restitution_def o1 o2 e_def min_def)
  have R: "normal_speed (normal obj1 obj2) obj1 obj2 = Fin R"
    by (simp add: normal_speed_def normal_def n dot_def vsub_def velocity_def) (simp add: o1 o2 R_def)
  have J: "impulse obj1 obj2 = Fin J"
    using M by (simp add: impulse_def e R) (simp add: o1 o2 J_def M_def)
  from approaching have "\<not> Fin 0 < normal_speed (normal obj1 obj2) obj1 obj2"
    by (simp add: R)
  with ov have v: "velocity (fst (checkCollision obj1 obj2)) = (Fin (v1 + J * m2 * nx), Fin (w1 + J * m2 * ny))"
    "velocity (snd (checkCollision obj1 obj2)) = (Fin (v2 - J * m1 * nx), Fin (w2 - J * m1 * ny))"
    by (simp_all add: velocity_impulse J n) (simp_all add: o1 o2)
  have "normal_speed (normal obj1 obj2) (fst (checkCollision obj1 obj2)) (snd (checkCollision obj1 obj2))
      = Fin (((v2 - J * m1 * nx) - (v1 + J * m2 * nx)) * nx
           + ((w2 - J * m1 * ny) - (w1 + J * m2 * ny)) * ny)"
    by (simp add: normal_speed_def v normal_def n dot_def vsub_def)
  also have "((v2 - J * m1 * nx) - (v1 + J * m2 * nx)) * nx
           + ((w2 - J * m1 * ny) - (w1 + J * m2 * ny)) * ny = - (e * R)"
    using M_def M unit R_def J_def by (rule relative_speed_after)
  finally have after: "normal_speed (normal obj1 obj2) (fst (checkCollision obj1 obj2))
      (snd (checkCollision obj1 obj2)) = Fin (- (e * R))" .
  then show ?thesis
    by (simp add: e R)
qed

text \<open>
  C3, as the code has it: for an overlapping pair, with \<open>rel\<close> the relative velocity
  along the normal, the velocities stay as they are when \<open>rel > 0\<close>; otherwise they
  become \<open>v1 + impulse * mass2 * normal\<close> and \<open>v2 - impulse * mass1 * normal\<close>, where the
  impulse is \<open>(1 + min(restitution1, restitution2)) * rel / (mass1 + mass2)\<close>. Both
  changes are multiples of the normal. Nothing is said about the components along the
  tangent.
\<close>

theorem velocity_response:
  assumes "overlapping obj1 obj2"
  shows "(Fin 0 < normal_speed (normal obj1 obj2) obj1 obj2 \<longrightarrow>
            velocity (fst (checkCollision obj1 obj2)) = velocity obj1 \<and>
            velocity (snd (checkCollision obj1 obj2)) = velocity obj2) \<and>
         (\<not> Fin 0 < normal_speed (normal obj1 obj2) obj1 obj2 \<longrightarrow>
            velocity (fst (checkCollision obj1 obj2)) =
              (vx obj1 + impulse obj1 obj2 * mass obj2 * normalX obj1 obj2,
               vy obj1 + impulse obj1 obj2 * mass obj2 * normalY obj1 obj2) \<and>
            velocity (snd (checkCollision obj1 obj2)) =
              (vx obj2 - impulse obj1 obj2 * mass obj1 * normalX obj1 obj2,
               vy obj2 - impulse obj1 obj2 * mass obj1 * normalY obj1 obj2))"
  using assms velocity_separating velocity_impulse by blast

theorem velocity_response_witness:
  "overlapping (disc 40 2 (4 / 5)) (disc 58 (- 2) (4 / 5)) \<and>
   \<not> Fin 0 < normal_speed (normal (disc 40 2 (4 / 5)) (disc 58 (- 2) (4 / 5)))
             (disc 40 2 (4 / 5)) (disc 58 (- 2) (4 / 5)) \<and>
   velocity (fst (checkCollision (disc 40 2 (4 / 5)) (disc 58 (- 2) (4 / 5))))
     = (Fin (- (8 / 5)), Fin 0) \<and>
   velocity (snd (checkCollision (disc 40 2 (4 / 5)) (disc 58 (- 2) (4 / 5))))
     = (Fin (8 / 5), Fin 0) \<and>
   overlapping (disc 40 (- 2) (4 / 5)) (disc 58 2 (4 / 5)) \<and>
   Fin 0 < normal_speed (normal (disc 40 (- 2) (4 / 5)) (disc 58 2 (4 / 5)))
             (disc 40 (- 2) (4 / 5)) (disc 58 2 (4 / 5)) \<and>
   velocity (fst (checkCollision (disc 40 (- 2) (4 / 5)) (disc 58 2 (4 / 5))))
     = (Fin (- 2), Fin 0) \<and>
   overlapping (disc 40 5 (4 / 5)) slanted \<and>
   normal (disc 40 5 (4 / 5)) slanted = (Fin (3 / 5), Fin (4 / 5)) \<and>
   \<not> Fin 0 < normal_speed (normal (disc 40 5 (4 / 5)) slanted) (disc 40 5 (4 / 5)) slanted \<and>
   velocity (fst (checkCollision (disc 40 5 (4 / 5)) slanted))
     = (Fin (169 / 50), Fin (- (54 / 25))) \<and>
   velocity (snd (checkCollision (disc 40 5 (4 / 5)) slanted))
     = (Fin (81 / 50), Fin (54 / 25))"
proof -
  have slanted: "overlapping (disc 40 5 (4 / 5)) slanted"
    "normalX (disc 40 5 (4 / 5)) slanted = Fin (3 / 5)"
    "normalY (disc 40 5 (4 / 5)) slanted = Fin (4 / 5)"
    by (simp_all add: overlapping_def normalX_def normalY_def distance_def minDistance_def
        slanted_def sqrt_100 Let_def)
  have speed: "normal_speed (Fin (3 / 5), Fin (4 / 5)) (disc 40 5 (4 / 5)) slanted = Fin (- 3)"
    by (simp add: normal_speed_def dot_def vsub_def velocity_def slanted_def)
  have imp: "impulse (disc 40 5 (4 / 5)) slanted = Fin (- (27 / 20))"
    by (simp add: impulse_def normal_def slanted speed combined_restitution_def)
       (simp add: slanted_def)
  from velocity_response [of "disc 40 2 (4 / 5)" "disc 58 (- 2) (4 / 5)"]
    velocity_response [of "disc 40 (- 2) (4 / 5)" "disc 58 2 (4 / 5)"]
    velocity_response [OF slanted(1)]
  show ?thesis
    by (simp add: normal_def slanted speed imp) (simp add: slanted_def velocity_def)
qed

section \<open>Reachable states\<close>

lemma spawned_body:
  assumes "is_fin px" and "is_fin py" and "unit_draws random" and "length (objects s) < 50"
  obtains b where "objects (snd (addObjectAt random px py s)) = objects s @ [b]"
    and "sound_material (material b)" and "finite_motion b"
proof -
  from assms(3) have "Fin 0 \<le> random 0 \<and> random 0 < Fin 1" "Fin 0 \<le> random 2 \<and> random 2 < Fin 1"
    "Fin 0 \<le> random 3 \<and> random 3 < Fin 1"
    by (simp_all add: unit_draws_def)
  then obtain r0 r2 r3 where r: "random 0 = Fin r0" "0 \<le> r0" "r0 < 1"
    "random 2 = Fin r2" "random 3 = Fin r3"
    by (cases "random 0"; cases "random 2"; cases "random 3") simp_all
  from assms(1,2) obtain ax ay where p: "px = Fin ax" "py = Fin ay"
    by (elim is_finE)
  let ?b = "\<lparr>x = px, y = py, vx = (random 2 - Fin 0.5) * Fin 10, vy = (random 3 - Fin 0.5) * Fin 10,
     radius = random 0 * Fin 15 + Fin 10, mass = (random 0 * Fin 15 + Fin 10) / Fin 5,
     color = random 1 * Fin 360, restitution = Fin 0.8, friction = Fin 0.99\<rparr>"
  from assms(4) have "objects (snd (addObjectAt random px py s)) = objects s @ [?b]"
    by (simp add: addObjectAt_def Let_def updateObjectCount_def)
  moreover have "sound_material (material ?b)"
    using r(2,3) by (simp add: sound_material_def material_def r(1))
  moreover have "finite_motion ?b"
    by (simp add: finite_motion_def r p)
  ultimately show ?thesis
    by (rule that)
qed

lemma reachable_legal: "reachable s \<Longrightarrow> legal s"
proof (induction rule: reachable.induct)
  case initial
  show ?case by (simp add: legal_def PhysicsSimulation_def)
next
  case (spawn s px py random)
  show ?case
  proof (cases "length (objects s) < 50")
    case True
    with spawn.hyps(2-4) obtain b where
      "objects (snd (addObjectAt random px py s)) = objects s @ [b]"
      "sound_material (material b)"
      by (rule spawned_body)
    moreover from True have "canvas_width (snd (addObjectAt random px py s)) = canvas_width s"
      "canvas_height (snd (addObjectAt random px py s)) = canvas_height s"
      "gravity (snd (addObjectAt random px py s)) = gravity s"
      by (simp_all add: addObjectAt_def Let_def updateObjectCount_def)
    ultimately show ?thesis
      using spawn.IH by (simp add: legal_def)
  next
    case False
    with spawn.IH show ?thesis
      by (simp add: addObjectAt_def)
  qed
next
  case (clear s)
  then show ?case by (simp add: legal_def clearObjects_def updateObjectCount_def)
next
  case (toggle s)
  then show ?case by (simp add: legal_def toggleGravity_def)
next
  case (frame s deltaTime)
  from frame.IH show ?case
    by (simp add: legal_def material_update) (simp add: update_def Let_def)
qed

lemma legal_body:
  assumes "legal s" and "i < length (objects s)" and "finite_motion (objects s ! i)"
  shows "finite_body (objects s ! i)"
    and "radius (objects s ! i) + radius (objects s ! i) \<le> Fin 400"
    and "Fin 0 < mass (objects s ! i)"
proof -
  from assms(1,2) have "sound_material (material (objects s ! i))"
    by (simp add: legal_def list_all_length)
  with assms(3) show "finite_body (objects s ! i)"
    and "radius (objects s ! i) + radius (objects s ! i) \<le> Fin 400"
    and "Fin 0 < mass (objects s ! i)"
    by (simp_all add: sound_material_def material_def finite_body_def finite_motion_def)
qed

section \<open>A frame does not throw\<close>

lemma move_loop_checked_eq: "move_loop_checked s dt i objs = Some (move_loop s dt i objs)"
proof (induction s dt i objs rule: move_loop.induct)
  case (1 s dt i objs)
  show ?case
  proof (cases "i < length objs")
    case True
    with "1.IH" [OF True refl refl refl] show ?thesis
      by (subst move_loop_checked.simps, subst move_loop.simps) (simp add: read_def Let_def)
  next
    case False
    then show ?thesis
      by (subst move_loop_checked.simps, subst move_loop.simps) simp
  qed
qed

lemma collide_inner_checked_eq:
  "i < length objs \<Longrightarrow> collide_inner_checked i j objs = Some (collide_inner i j objs)"
proof (induction i j objs rule: collide_inner.induct)
  case (1 i j objs)
  show ?case
  proof (cases "j < length objs")
    case True
    obtain a b where ab: "checkCollision (objs ! i) (objs ! j) = (a, b)"
      by (cases "checkCollision (objs ! i) (objs ! j)")
    from "1.prems" have "i < length (objs[i := a, j := b])"
      by simp
    with True ab "1.prems" "1.IH" [OF True ab [symmetric] refl] show ?thesis
      by (subst collide_inner_checked.simps, subst collide_inner.simps) (simp add: read_def)
  next
    case False
    then show ?thesis
      by (subst collide_inner_checked.simps, subst collide_inner.simps) simp
  qed
qed

lemma collide_outer_checked_eq: "collide_outer_checked i objs = Some (collide_outer i objs)"
proof (induction i objs rule: collide_outer.induct)
  case (1 i objs)
  show ?case
  proof (cases "i < length objs")
    case True
    with "1.IH" [OF True] show ?thesis
      by (subst collide_outer_checked.simps, subst collide_outer.simps)
         (simp add: collide_inner_checked_eq)
  next
    case False
    then show ?thesis
      by (subst collide_outer_checked.simps, subst collide_outer.simps) simp
  qed
qed

lemma update_checked_eq: "update_checked deltaTime s = Some (update deltaTime s)"
  by (simp add: update_checked_def update_def Let_def move_loop_checked_eq
      collide_outer_checked_eq)

section \<open>Boundary containment\<close>

lemma dt_factor_fin: "is_fin e \<Longrightarrow> is_fin (dt_factor e)"
  by (cases e) (simp_all add: dt_factor_def)

lemma integrate_finite:
  assumes "finite_body b" and "is_fin (fst g)" and "is_fin (snd g)" and "is_fin dt"
  shows "finite_body (integrate gEnabled g dt b)"
    and "radius (integrate gEnabled g dt b) = radius b"
    and "mass (integrate gEnabled g dt b) = mass b"
proof -
  from assms(1) obtain x1 y1 v1 w1 r1 m1 c1 e1 f1 where o1:
    "b = \<lparr>x = Fin x1, y = Fin y1, vx = Fin v1, vy = Fin w1, radius = Fin r1, mass = Fin m1,
      color = c1, restitution = Fin e1, friction = Fin f1\<rparr>"
    by (rule finite_bodyE)
  from assms(2-4) obtain gx gy t where "fst g = Fin gx" "snd g = Fin gy" "dt = Fin t"
    by (elim is_finE)
  then show "finite_body (integrate gEnabled g dt b)"
    by (simp add: integrate_def Let_def finite_body_def o1)
  show "radius (integrate gEnabled g dt b) = radius b"
    and "mass (integrate gEnabled g dt b) = mass b"
    by (simp_all add: integrate_def Let_def)
qed

lemma boundary_within_walls:
  assumes "finite_body b" and "radius b + radius b \<le> Fin w" and "radius b + radius b \<le> Fin h"
  shows "within_walls (Fin w) (Fin h) (boundary (Fin w) (Fin h) b)"
    and "finite_body (boundary (Fin w) (Fin h) b)"
    and "mass (boundary (Fin w) (Fin h) b) = mass b"
proof -
  from assms(1) obtain x1 y1 v1 w1 r1 m1 c1 e1 f1 where o1:
    "b = \<lparr>x = Fin x1, y = Fin y1, vx = Fin v1, vy = Fin w1, radius = Fin r1, mass = Fin m1,
      color = c1, restitution = Fin e1, friction = Fin f1\<rparr>"
    by (rule finite_bodyE)
  from assms(2,3) have "r1 + r1 \<le> w" "r1 + r1 \<le> h"
    by (simp_all add: o1)
  then show "within_walls (Fin w) (Fin h) (boundary (Fin w) (Fin h) b)"
    by (simp add: boundary_def within_walls_def o1 Let_def)
  show "finite_body (boundary (Fin w) (Fin h) b)"
    by (simp add: boundary_def finite_body_def o1 Let_def)
  show "mass (boundary (Fin w) (Fin h) b) = mass b"
    by (simp add: boundary_def Let_def)
qed

lemma within_walls_exact:
  assumes "is_fin (x b)" and "is_fin (y b)" and "is_fin (radius b)"
  shows "within_walls (Fin w) (Fin h) b = in_bounds (Fin w) (Fin h) b"
proof -
  from assms obtain px py r where "x b = Fin px" "y b = Fin py" "radius b = Fin r"
    by (elim is_finE)
  then show ?thesis
    by (auto simp: within_walls_def in_bounds_def)
qed

lemma moved_body:
  assumes "legal s" and "is_fin deltaTime" and "i < length (objects s)"
    and "finite_motion (objects s ! i)"
  shows "within_walls (canvas_width s) (canvas_height s)
           (move_loop s (dt_factor deltaTime) 0 (objects s) ! i)"
    and "finite_body (move_loop s (dt_factor deltaTime) 0 (objects s) ! i)"
    and "Fin 0 < mass (move_loop s (dt_factor deltaTime) 0 (objects s) ! i)"
proof -
  let ?a = "objects s ! i"
  let ?b = "integrate (gravityEnabled s) (gravity s) (dt_factor deltaTime) ?a"
  from assms(1) have wh: "canvas_width s = Fin 600" "canvas_height s = Fin 400"
    and g: "gravity s = (Fin 0, Fin 0.5)"
    by (simp_all add: legal_def)
  from assms(1,3,4) have fin: "finite_body ?a" and r: "radius ?a + radius ?a \<le> Fin 400"
    and m: "Fin 0 < mass ?a"
    by (rule legal_body)+
  from fin assms(2) have b: "finite_body ?b" "radius ?b = radius ?a" "mass ?b = mass ?a"
    by (simp_all add: integrate_finite g dt_factor_fin)
  from fin obtain ra where ra: "radius ?a = Fin ra"
    by (auto simp: finite_body_def elim: is_finE)
  from r have fits: "radius ?b + radius ?b \<le> Fin 600" "radius ?b + radius ?b \<le> Fin 400"
    by (simp_all add: b ra)
  from assms(3) have moved: "move_loop s (dt_factor deltaTime) 0 (objects s) ! i
      = boundary (Fin 600) (Fin 400) ?b"
    by (simp add: move_loop_map wh)
  from b(1) fits show "within_walls (canvas_width s) (canvas_height s)
           (move_loop s (dt_factor deltaTime) 0 (objects s) ! i)"
    unfolding moved wh by (rule boundary_within_walls)
  from b(1) fits show "finite_body (move_loop s (dt_factor deltaTime) 0 (objects s) ! i)"
    unfolding moved by (rule boundary_within_walls)
  from b(1) fits have "mass (boundary (Fin 600) (Fin 400) ?b) = mass ?b"
    by (rule boundary_within_walls)
  with m show "Fin 0 < mass (move_loop s (dt_factor deltaTime) 0 (objects s) ! i)"
    by (simp add: moved b)
qed

lemma radius_update:
  assumes "i < length (objects s)"
  shows "radius (objects (update deltaTime s) ! i) = radius (objects s ! i)"
proof -
  from assms have "material (objects (update deltaTime s) ! i)
      = map material (objects (update deltaTime s)) ! i"
    by simp
  also from assms have "\<dots> = material (objects s ! i)"
    by (simp add: material_update)
  finally show ?thesis
    by (simp add: material_def)
qed

text \<open>
  C1, as the code has it: the boundary tests run before the collisions, and the
  positions that \<open>checkCollision\<close> corrects are not clamped again. For every reachable
  state, frames included, every finite elapsed time and every body with finite position
  and velocity before the frame: if the collisions of the frame leave the position as
  the boundary tests set it, then after the frame \<open>radius \<le> x\<close> and \<open>radius \<le> y\<close>, and
  on the high side \<open>x + radius > width\<close> is false or \<open>x\<close> is \<open>width - radius\<close>, and the same
  for \<open>y\<close> and the height.
\<close>

theorem contained_unless_displaced:
  assumes "reachable s" and "is_fin deltaTime"
    and "i < length (objects s)" and "finite_motion (objects s ! i)"
    and "x (objects (update deltaTime s) ! i)
           = x (move_loop s (dt_factor deltaTime) 0 (objects s) ! i)"
    and "y (objects (update deltaTime s) ! i)
           = y (move_loop s (dt_factor deltaTime) 0 (objects s) ! i)"
  shows "within_walls (canvas_width s) (canvas_height s) (objects (update deltaTime s) ! i)"
proof -
  let ?m = "move_loop s (dt_factor deltaTime) 0 (objects s) ! i"
  from assms(1) have "legal s"
    by (rule reachable_legal)
  from this assms(2-4) have "within_walls (canvas_width s) (canvas_height s) ?m"
    by (rule moved_body)
  moreover from assms(3) have "radius ?m = radius (objects s ! i)"
    using material_boundary material_integrate
    by (simp add: move_loop_map material_def)
  ultimately show ?thesis
    using assms(3,5,6) by (simp add: within_walls_def radius_update)
qed

subsection \<open>Worlds of still bodies\<close>

lemma two_bodies_eq:
  "two_bodies px py qx qy =
     PhysicsSimulation\<lparr>objects := [still_body px py, still_body qx qy], objectCount := 2\<rparr>"
  by (simp add: two_bodies_def spawn_still PhysicsSimulation_def)

lemma world_crowd_eq:
  "world_crowd =
     PhysicsSimulation
       \<lparr>objects := [still_body 10 100, still_body 12 100, still_body 400 100],
        objectCount := 3\<rparr>"
  by (simp add: world_crowd_def world_wall_def two_bodies_eq spawn_still PhysicsSimulation_def)

lemma unit_draws_still: "unit_draws still_draws"
  by (simp add: unit_draws_def still_draws_def)

lemma reachable_two_bodies: "reachable (two_bodies px py qx qy)"
  unfolding two_bodies_def
  by (intro reachable.intros unit_draws_still) simp_all

lemma reachable_world_crowd: "reachable world_crowd"
  unfolding world_crowd_def world_wall_def
  by (intro reachable.spawn reachable_two_bodies unit_draws_still) simp_all

lemma moved_still_body:
  assumes "10 \<le> px" and "px \<le> 590"
  shows "boundary (Fin 600) (Fin 400)
           (integrate True (Fin 0, Fin (1 / 2)) (dt_factor (Fin (1667 / 100)))
             (still_body px 100)) = falling px"
  using assms
  by (simp add: boundary_def integrate_def dt_factor_def still_body_def falling_def Let_def)

lemma falling_fields [simp]:
  "x (falling px) = Fin px" "y (falling px) = Fin (20099 / 200)"
  "vx (falling px) = Fin 0" "vy (falling px) = Fin (99 / 200)"
  "radius (falling px) = Fin 10" "mass (falling px) = Fin 2"
  by (simp_all add: falling_def)

lemma finite_body_falling [simp]: "finite_body (falling px)"
  by (simp add: finite_body_def falling_def)

lemma distance_falling: "p \<le> q \<Longrightarrow> distance (falling p) (falling q) = Fin (q - p)"
  by (simp add: distance_def Let_def)

lemma falling_far:
  "20 \<le> q - p \<Longrightarrow> checkCollision (falling p) (falling q) = (falling p, falling q)"
  by (simp add: checkCollision_def distance_falling minDistance_def)

lemma falling_near:
  assumes "0 < q - p" and "q - p < 20"
  shows "checkCollision (falling p) (falling q) =
           (falling (p - (20 - (q - p)) / 2), falling (q + (20 - (q - p)) / 2))"
proof -
  from assms have d: "distance (falling p) (falling q) = Fin (q - p)"
    by (simp add: distance_falling)
  from assms have n: "normalX (falling p) (falling q) = Fin 1" "normalY (falling p) (falling q) = Fin 0"
    by (simp_all add: normalX_def normalY_def d)
  from assms show ?thesis
    by (simp add: checkCollision_def d n minDistance_def relativeSpeed_def Let_def)
       (simp add: falling_def)
qed

lemma CollisionResolver_two:
  "CollisionResolver [a, b] = [fst (checkCollision a b), snd (checkCollision a b)]"
  by (simp add: CollisionResolver_def ascending_pairs_def resolve_pair_def upt_rec split: prod.splits)

lemma moved_two_bodies:
  assumes "10 \<le> px" and "px \<le> 590" and "10 \<le> qx" and "qx \<le> 590"
  shows "move_loop (two_bodies px 100 qx 100) (dt_factor (Fin (1667 / 100))) 0
           (objects (two_bodies px 100 qx 100)) = [falling px, falling qx]"
  using assms
  by (simp add: move_loop_map two_bodies_eq PhysicsSimulation_def moved_still_body)

lemma moved_world_crowd:
  "move_loop world_crowd (dt_factor (Fin (1667 / 100))) 0 (objects world_crowd)
     = [falling 10, falling 12, falling 400]"
  by (simp add: move_loop_map world_crowd_eq PhysicsSimulation_def moved_still_body)

lemma frame_world_wall:
  "objects (update (Fin (1667 / 100)) world_wall) = [falling 1, falling 21]"
  by (simp add: update_def Let_def collide_outer_pairs world_wall_def moved_two_bodies
      CollisionResolver_two falling_near)

lemma frame_world_crowd:
  "objects (update (Fin (1667 / 100)) world_crowd) = [falling 1, falling 21, falling 400]"
proof -
  have "objects (update (Fin (1667 / 100)) world_crowd)
      = CollisionResolver [falling 10, falling 12, falling 400]"
    by (simp add: update_def Let_def collide_outer_pairs moved_world_crowd)
  also have "\<dots> = [falling 1, falling 21, falling 400]"
    by (simp add: CollisionResolver_def ascending_pairs_def resolve_pair_def upt_rec
        falling_near falling_far)
  finally show ?thesis .
qed

theorem contained_unless_displaced_witness:
  "reachable world_crowd \<and> is_fin (Fin 16.67) \<and> 2 < length (objects world_crowd) \<and>
   finite_motion (objects world_crowd ! 2) \<and>
   x (objects (update (Fin 16.67) world_crowd) ! 2)
     = x (move_loop world_crowd (dt_factor (Fin 16.67)) 0 (objects world_crowd) ! 2) \<and>
   y (objects (update (Fin 16.67) world_crowd) ! 2)
     = y (move_loop world_crowd (dt_factor (Fin 16.67)) 0 (objects world_crowd) ! 2) \<and>
   x (objects (update (Fin 16.67) world_crowd) ! 0)
     \<noteq> x (move_loop world_crowd (dt_factor (Fin 16.67)) 0 (objects world_crowd) ! 0) \<and>
   within_walls (canvas_width world_crowd) (canvas_height world_crowd)
     (objects (update (Fin 16.67) world_crowd) ! 2)"
proof -
  have len: "2 < length (objects world_crowd)"
    and fin: "finite_motion (objects world_crowd ! 2)"
    by (simp_all add: world_crowd_eq finite_motion_def still_body_def)
  have fin_dt: "is_fin (Fin 16.67)"
    by simp
  have same: "x (objects (update (Fin 16.67) world_crowd) ! 2)
      = x (move_loop world_crowd (dt_factor (Fin 16.67)) 0 (objects world_crowd) ! 2)"
    "y (objects (update (Fin 16.67) world_crowd) ! 2)
      = y (move_loop world_crowd (dt_factor (Fin 16.67)) 0 (objects world_crowd) ! 2)"
    by (simp_all add: frame_world_crowd moved_world_crowd)
  have other: "x (objects (update (Fin 16.67) world_crowd) ! 0)
      \<noteq> x (move_loop world_crowd (dt_factor (Fin 16.67)) 0 (objects world_crowd) ! 0)"
    by (simp add: frame_world_crowd moved_world_crowd)
  from contained_unless_displaced [OF reachable_world_crowd fin_dt len fin same]
    reachable_world_crowd fin_dt len fin same other
  show ?thesis
    by blast
qed

text \<open>
  C1 as stated fails: two bodies of radius 10 spawned at rest at \<open>(10,100)\<close> and
  \<open>(12,100)\<close> overlap by 18; one frame pushes the first to \<open>x = 1\<close>, less than its radius.
\<close>

theorem pushed_through_wall:
  "reachable world_wall \<and>
   x (objects (update (Fin 16.67) world_wall) ! 0) = Fin 1 \<and>
   radius (objects (update (Fin 16.67) world_wall) ! 0) = Fin 10 \<and>
   \<not> radius (objects (update (Fin 16.67) world_wall) ! 0)
       \<le> x (objects (update (Fin 16.67) world_wall) ! 0)"
  by (simp add: frame_world_wall) (simp add: world_wall_def reachable_two_bodies)

section \<open>Frames that meet no zero distance\<close>

lemma mass_checkCollision [simp]:
  "mass (fst (checkCollision obj1 obj2)) = mass obj1"
  "mass (snd (checkCollision obj1 obj2)) = mass obj2"
  by (simp_all add: checkCollision_def Let_def)

lemma list_all_update:
  "list_all P xs \<Longrightarrow> P a \<Longrightarrow> list_all P (xs[i := a])"
  using set_update_subset_insert [of xs i a] by (auto simp: list_all_iff)

lemma resolve_pair_finite:
  assumes all: "list_all (\<lambda>b. finite_body b \<and> Fin 0 < mass b) objs"
    and range: "fst p < length objs" "snd p < length objs"
    and nonzero: "distance (objs ! fst p) (objs ! snd p) \<noteq> Fin 0"
  shows "list_all (\<lambda>b. finite_body b \<and> Fin 0 < mass b) (resolve_pair p objs)"
proof -
  let ?a = "objs ! fst p" and ?b = "objs ! snd p"
  from all range have ab: "finite_body ?a" "finite_body ?b" "Fin 0 < mass ?a" "Fin 0 < mass ?b"
    by (simp_all add: list_all_length)
  obtain a' b' where cc: "checkCollision ?a ?b = (a', b')"
    by (cases "checkCollision ?a ?b")
  from ab nonzero have "finite_body (fst (checkCollision ?a ?b))"
    and "finite_body (snd (checkCollision ?a ?b))"
    by (rule checkCollision_finite)+
  moreover have "mass (fst (checkCollision ?a ?b)) = mass ?a"
    and "mass (snd (checkCollision ?a ?b)) = mass ?b"
    by simp_all
  ultimately have "finite_body a' \<and> Fin 0 < mass a'" and "finite_body b' \<and> Fin 0 < mass b'"
    using ab(3,4) by (simp_all add: cc)
  with all have "list_all (\<lambda>b. finite_body b \<and> Fin 0 < mass b) (objs[fst p := a', snd p := b'])"
    by (intro list_all_update)
  then show ?thesis
    by (simp add: resolve_pair_def cc)
qed

lemma fold_resolve_pair_finite:
  assumes "nonzero_distances ps objs"
    and "\<forall>p \<in> set ps. fst p < length objs \<and> snd p < length objs"
    and "list_all (\<lambda>b. finite_body b \<and> Fin 0 < mass b) objs"
  shows "list_all (\<lambda>b. finite_body b \<and> Fin 0 < mass b) (fold resolve_pair ps objs)"
  using assms
proof (induction ps arbitrary: objs)
  case Nil
  then show ?case by simp
next
  case (Cons p ps)
  from Cons.prems have "list_all (\<lambda>b. finite_body b \<and> Fin 0 < mass b) (resolve_pair p objs)"
    by (intro resolve_pair_finite) simp_all
  with Cons.prems show ?case
    by (simp add: Cons.IH)
qed

lemma ascending_pairs_less: "(i, j) \<in> set (ascending_pairs n) \<Longrightarrow> i < j \<and> j < n"
  by (auto simp: ascending_pairs_def)

lemma frame_finite:
  assumes "reachable s" and "is_fin deltaTime"
    and "list_all finite_motion (objects s)"
    and "nonzero_distances (ascending_pairs (length (objects s)))
           (move_loop s (dt_factor deltaTime) 0 (objects s))"
  shows "list_all finite_body (objects (update deltaTime s))"
proof -
  let ?moved = "move_loop s (dt_factor deltaTime) 0 (objects s)"
  from assms(1) have legal: "legal s"
    by (rule reachable_legal)
  have "finite_body (?moved ! i) \<and> Fin 0 < mass (?moved ! i)" if "i < length (objects s)" for i
  proof -
    from assms(3) that have "finite_motion (objects s ! i)"
      by (simp add: list_all_length)
    with legal assms(2) that show ?thesis
      by (simp add: moved_body)
  qed
  then have "list_all (\<lambda>b. finite_body b \<and> Fin 0 < mass b) ?moved"
    by (simp add: list_all_length)
  moreover have "\<forall>p \<in> set (ascending_pairs (length (objects s))).
      fst p < length ?moved \<and> snd p < length ?moved"
    by (auto dest: ascending_pairs_less)
  ultimately have "list_all (\<lambda>b. finite_body b \<and> Fin 0 < mass b)
      (fold resolve_pair (ascending_pairs (length (objects s))) ?moved)"
    using assms(4) by (intro fold_resolve_pair_finite)
  then show ?thesis
    by (simp add: update_def Let_def collide_outer_pairs CollisionResolver_def list_all_iff)
qed

text \<open>
  C2, as the code has it: \<open>checkCollision\<close> has no fallback normal; it divides the centre
  difference by the distance it computed. A frame does not throw, whatever the state and
  the elapsed time. For every reachable state in which all positions and velocities are
  finite, and every finite elapsed time: if no pair has the computed distance 0 when the
  collision resolver comes to it, every body has a finite position and velocity after
  the frame.
\<close>

theorem finite_unless_zero_distance:
  "update_checked deltaTime s = Some (update deltaTime s) \<and>
   (reachable s \<and> is_fin deltaTime \<and> list_all finite_motion (objects s) \<and>
    nonzero_distances (ascending_pairs (length (objects s)))
      (move_loop s (dt_factor deltaTime) 0 (objects s))
    \<longrightarrow> list_all finite_body (objects (update deltaTime s)))"
  using update_checked_eq frame_finite by blast

theorem finite_unless_zero_distance_witness:
  "reachable world_wall \<and> is_fin (Fin 16.67) \<and> list_all finite_motion (objects world_wall) \<and>
   nonzero_distances (ascending_pairs (length (objects world_wall)))
     (move_loop world_wall (dt_factor (Fin 16.67)) 0 (objects world_wall)) \<and>
   overlapping (move_loop world_wall (dt_factor (Fin 16.67)) 0 (objects world_wall) ! 0)
     (move_loop world_wall (dt_factor (Fin 16.67)) 0 (objects world_wall) ! 1) \<and>
   update_checked (Fin 16.67) world_wall = Some (update (Fin 16.67) world_wall) \<and>
   list_all finite_body (objects (update (Fin 16.67) world_wall))"
proof -
  have r: "reachable world_wall"
    by (simp add: world_wall_def reachable_two_bodies)
  have f: "is_fin (Fin 16.67)"
    by simp
  have m: "list_all finite_motion (objects world_wall)"
    by (simp add: world_wall_def two_bodies_eq finite_motion_def still_body_def)
  have n: "nonzero_distances (ascending_pairs (length (objects world_wall)))
     (move_loop world_wall (dt_factor (Fin 16.67)) 0 (objects world_wall))"
    by (simp add: world_wall_def moved_two_bodies)
       (simp add: two_bodies_eq ascending_pairs_def upt_rec distance_falling)
  have ov: "overlapping (move_loop world_wall (dt_factor (Fin 16.67)) 0 (objects world_wall) ! 0)
     (move_loop world_wall (dt_factor (Fin 16.67)) 0 (objects world_wall) ! 1)"
    by (simp add: world_wall_def moved_two_bodies)
       (simp add: overlapping_def distance_falling minDistance_def)
  from finite_unless_zero_distance [of "Fin 16.67" world_wall] r f m n ov show ?thesis
    by blast
qed

lemma reachable_world_same: "reachable world_same"
  unfolding world_same_def
  by (intro reachable.intros unit_draws_still) (simp_all add: unit_draws_def quarter_draws_def)

lemma world_same_eq:
  "world_same =
     PhysicsSimulation
       \<lparr>objects :=
          [still_body 100 100,
           \<lparr>x = Fin 100, y = Fin 100, vx = Fin (- (5 / 2)), vy = Fin (- (5 / 2)),
            radius = Fin (55 / 4), mass = Fin (11 / 4), color = Fin 90,
            restitution = Fin (4 / 5), friction = Fin (99 / 100)\<rparr>],
        objectCount := 2\<rparr>"
proof -
  have "snd (addObjectAt still_draws (Fin 100) (Fin 100) PhysicsSimulation) =
      PhysicsSimulation\<lparr>objects := [still_body 100 100], objectCount := 1\<rparr>"
    by (simp add: spawn_still PhysicsSimulation_def)
  then show ?thesis
    unfolding world_same_def
    by (simp add: addObjectAt_def quarter_draws_def PhysicsSimulation_def updateObjectCount_def
        Let_def)
qed

lemma moved_world_same:
  "move_loop world_same (dt_factor (Fin 0)) 0 (objects world_same) =
     [still_body 100 100,
      \<lparr>x = Fin 100, y = Fin 100, vx = Fin (- (99 / 40)), vy = Fin (- (99 / 40)),
       radius = Fin (55 / 4), mass = Fin (11 / 4), color = Fin 90,
       restitution = Fin (4 / 5), friction = Fin (99 / 100)\<rparr>]"
  by (simp add: move_loop_map world_same_eq PhysicsSimulation_def dt_factor_def)
     (simp add: integrate_def boundary_def still_body_def Let_def)

lemma frame_world_same:
  "objects (update (Fin 0) world_same)
     = [fst (checkCollision (fst same_pair) (snd same_pair)),
        snd (checkCollision (fst same_pair) (snd same_pair))]"
  by (simp add: update_def Let_def collide_outer_pairs same_pair_def moved_world_same
      CollisionResolver_two)

lemma same_pair_collision:
  "distance (fst same_pair) (snd same_pair) = Fin 0"
  "normal (fst same_pair) (snd same_pair) = (NaN, NaN)"
  "overlapping (fst same_pair) (snd same_pair)"
  "velocity (fst same_pair) = (Fin 0, Fin 0)"
  "x (fst (checkCollision (fst same_pair) (snd same_pair))) = NaN"
  "y (fst (checkCollision (fst same_pair) (snd same_pair))) = NaN"
  "x (snd (checkCollision (fst same_pair) (snd same_pair))) = NaN"
  "y (snd (checkCollision (fst same_pair) (snd same_pair))) = NaN"
  "velocity (fst (checkCollision (fst same_pair) (snd same_pair))) = (NaN, NaN)"
  "velocity (snd (checkCollision (fst same_pair) (snd same_pair))) = (NaN, NaN)"
  by (simp_all add: same_pair_def Let_def moved_world_same)
     (simp_all add: still_body_def collision_defs normal_def overlapping_def velocity_def Let_def)

text \<open>
  C2 as stated fails: after two clicks at the same point, a frame with elapsed time 0
  (the first frame after the start) leaves both centres at that point; their distance is
  0, the normal is \<open>0 / 0\<close>, and the positions and velocities of both bodies become NaN.
\<close>

theorem coincident_centres_NaN:
  "reachable world_same \<and>
   map x (objects (update (Fin 0) world_same)) = [NaN, NaN] \<and>
   map y (objects (update (Fin 0) world_same)) = [NaN, NaN] \<and>
   map vx (objects (update (Fin 0) world_same)) = [NaN, NaN] \<and>
   map vy (objects (update (Fin 0) world_same)) = [NaN, NaN]"
proof -
  have "map x (objects (update (Fin 0) world_same)) = [NaN, NaN] \<and>
    map y (objects (update (Fin 0) world_same)) = [NaN, NaN] \<and>
    map vx (objects (update (Fin 0) world_same)) = [NaN, NaN] \<and>
    map vy (objects (update (Fin 0) world_same)) = [NaN, NaN]"
    using same_pair_collision(9,10)
    by (simp add: frame_world_same same_pair_collision velocity_def)
  with reachable_world_same show ?thesis
    by (rule conjI)
qed

text \<open>
  C3 as stated fails for that pair: the first body is at rest before the collision and
  has the velocity \<open>(NaN, NaN)\<close> after it; its component along the tangent is NaN, which is
  equal to nothing, so it is not the component it had.
\<close>

theorem coincident_velocity_lost:
  "reachable world_same \<and>
   objects (update (Fin 0) world_same)
     = [fst (checkCollision (fst same_pair) (snd same_pair)),
        snd (checkCollision (fst same_pair) (snd same_pair))] \<and>
   overlapping (fst same_pair) (snd same_pair) \<and>
   velocity (fst same_pair) = (Fin 0, Fin 0) \<and>
   velocity (fst (checkCollision (fst same_pair) (snd same_pair))) = (NaN, NaN) \<and>
   \<not> strict_equal
       (tangential (velocity (fst (checkCollision (fst same_pair) (snd same_pair))))
          (normal (fst same_pair) (snd same_pair)))
       (tangential (velocity (fst same_pair)) (normal (fst same_pair) (snd same_pair)))"
  using reachable_world_same frame_world_same
  by (simp add: same_pair_collision)

end
